theory Spec2Isabelle
  imports Main "HOL-Library.Word" "HOL-Library.Signed_Division" "HOL-Library.Monad_Syntax"
begin

unbundle bit_operations_syntax

section \<open>Constants of rdp.c\<close>

definition RDP_QUEUE_SIZE_MAX :: nat where
  "RDP_QUEUE_SIZE_MAX = 16 * 1024"

definition RDP_BUFFER_SIZE_MAX :: nat where
  "RDP_BUFFER_SIZE_MAX = 16 * 1024 * 1024"

definition RDP_WINDOW_SIZE_MAX :: nat where
  "RDP_WINDOW_SIZE_MAX = RDP_BUFFER_SIZE_MAX"

definition RDP_WINDOW_SIZE_DEFAULT :: nat where
  "RDP_WINDOW_SIZE_DEFAULT = RDP_BUFFER_SIZE_MAX div 4"

definition RDP_RETRANSMIT_TIMEOUT_MIN :: nat where
  "RDP_RETRANSMIT_TIMEOUT_MIN = 200"

definition RDP_RETRANSMIT_TIMEOUT_MAX :: nat where
  "RDP_RETRANSMIT_TIMEOUT_MAX = 1000"

definition RDP_RETRANSMIT_TIMEOUT_DEFAULT :: nat where
  "RDP_RETRANSMIT_TIMEOUT_DEFAULT = 500"

definition RDP_KEEPALIVE_INTERVAL :: nat where
  "RDP_KEEPALIVE_INTERVAL = 29000"

definition RDP_WAIT_SYN_RECV :: nat where
  "RDP_WAIT_SYN_RECV = 10000"

definition RDP_WAIT_FIN_SENT :: nat where
  "RDP_WAIT_FIN_SENT = 10000"

definition RDP_MAX_VEC :: nat where
  "RDP_MAX_VEC = 1024"

definition RDP_ACK_NR_RECV_BEHIND_ALLOWED :: nat where
  "RDP_ACK_NR_RECV_BEHIND_ALLOWED = 10"

definition ETHERNET_MTU :: nat where "ETHERNET_MTU = 1500"
definition IPV4_HEADER_SIZE :: nat where "IPV4_HEADER_SIZE = 20"
definition UDP_HEADER_SIZE :: nat where "UDP_HEADER_SIZE = 8"
definition GRE_HEADER_SIZE :: nat where "GRE_HEADER_SIZE = 24"
definition PPPOE_HEADER_SIZE :: nat where "PPPOE_HEADER_SIZE = 8"
definition MPPE_HEADER_SIZE :: nat where "MPPE_HEADER_SIZE = 2"
definition FUDGE_HEADER_SIZE :: nat where "FUDGE_HEADER_SIZE = 36"

definition UDP_IPV4_MTU :: nat where
  "UDP_IPV4_MTU = ETHERNET_MTU - IPV4_HEADER_SIZE - UDP_HEADER_SIZE - GRE_HEADER_SIZE
                  - PPPOE_HEADER_SIZE - MPPE_HEADER_SIZE - FUDGE_HEADER_SIZE"

text \<open>Packet types.\<close>

definition ST_DATA :: "8 word" where "ST_DATA = 0"
definition ST_FIN :: "8 word" where "ST_FIN = 1"
definition ST_STATE :: "8 word" where "ST_STATE = 2"
definition ST_RESET :: "8 word" where "ST_RESET = 3"
definition ST_SYN :: "8 word" where "ST_SYN = 4"

section \<open>Data model\<close>

datatype connState =
  CS_UNINITIALIZED | CS_SYN_SENT | CS_SYN_RECV | CS_CONNECTED | CS_CONNECTED_FULL
  | CS_FIN_SENT | CS_DESTROY

text \<open>
  \<open>struct packet\<close> (packed, 12 bytes). The fields \<open>connId\<close>, \<open>window\<close>, \<open>seqnr\<close> and
  \<open>acknr\<close> carry the prefix \<open>p_\<close> here, because a record field is a global constant and
  \<open>struct rdpConn\<close> has fields \<open>seqnr\<close> and \<open>acknr\<close> of its own.
\<close>

record packet =
  versionAndType :: "8 word"
  reserve :: "8 word"
  p_connId :: "16 word"
  p_window :: "32 word"
  p_seqnr :: "16 word"
  p_acknr :: "16 word"

subsection \<open>The two nibbles of \<open>versionAndType\<close>\<close>

definition packetGetVersion :: "packet \<Rightarrow> 8 word" where
  "packetGetVersion p = versionAndType p AND 0x0f"

definition packetGetType :: "packet \<Rightarrow> 8 word" where
  "packetGetType p = drop_bit 4 (versionAndType p)"

definition packetSetVersion :: "packet \<Rightarrow> 8 word \<Rightarrow> packet" where
  "packetSetVersion p v = p\<lparr>versionAndType := (versionAndType p AND 0xf0) OR (v AND 0x0f)\<rparr>"

text \<open>
  In \<open>packetSetType\<close> the operand \<open>t << 4\<close> is an \<open>int\<close> after promotion; the assignment
  to the \<open>uint8_t\<close> field keeps its low 8 bits, which is \<open>push_bit 4 t\<close> on \<open>8 word\<close>.
\<close>

definition packetSetType :: "packet \<Rightarrow> 8 word \<Rightarrow> packet" where
  "packetSetType p t = p\<lparr>versionAndType := (versionAndType p AND 0x0f) OR push_bit 4 t\<rparr>"

subsection \<open>Ring buffer\<close>

text \<open>
  \<open>struct rbuffer\<close>: \<open>mask\<close> (renamed \<open>mask_rb\<close>, since \<open>mask\<close> is a constant of the word
  library) and the array \<open>elements\<close> of \<open>mask + 1\<close> slot pointers. The array is a map from
  the cell index (a \<open>size_t\<close>) to the slot stored there; \<open>None\<close> is the \<open>NULL\<close> pointer.
  Every access of the source goes through \<open>i & mask\<close>, so only the cells \<open>0 .. mask\<close> are
  ever read or written. Allocation is taken to succeed: \<open>calloc\<close> yields the all-\<open>NULL\<close>
  array.
\<close>

record 'a rbuffer =
  mask_rb :: "64 word"
  elements :: "64 word \<Rightarrow> 'a option"

definition rbufferInit :: "'a rbuffer \<Rightarrow> 'a rbuffer" where
  "rbufferInit buf = buf\<lparr>mask_rb := 63, elements := (\<lambda>_. None)\<rparr>"

definition rbufferGet :: "'a rbuffer \<Rightarrow> 64 word \<Rightarrow> 'a option" where
  "rbufferGet buf i = elements buf (i AND mask_rb buf)"

definition rbufferPut :: "'a rbuffer \<Rightarrow> 64 word \<Rightarrow> 'a option \<Rightarrow> 'a rbuffer" where
  "rbufferPut buf i d = buf\<lparr>elements := (elements buf)(i AND mask_rb buf := d)\<rparr>"

text \<open>
  The size computation of \<open>rbufferGrow\<close>: \<open>do size *= 2; while (index >= size);\<close> on
  \<open>size_t\<close>. The multiplication wraps, so the loop need not end (once \<open>size\<close> is 0 it stays
  0); \<open>None\<close> is the run that never leaves the loop.
\<close>

partial_function (option) rbufferGrowSize :: "64 word \<Rightarrow> 64 word \<Rightarrow> 64 word option" where
  "rbufferGrowSize sz index =
     (let sz' = sz * 2 in
      if index \<ge> sz' then rbufferGrowSize sz' index else Some sz')"

text \<open>The copy loop \<open>for (i = 0; i <= buf->mask; i++)\<close>, with \<open>nmask\<close> the new mask.\<close>

definition rbufferGrowCopy ::
  "'a rbuffer \<Rightarrow> 64 word \<Rightarrow> 64 word \<Rightarrow> 64 word \<Rightarrow> (64 word \<Rightarrow> 'a option)" where
  "rbufferGrowCopy buf item index nmask =
     fold (\<lambda>i newElements.
             newElements((item - index + of_nat i) AND nmask :=
                           rbufferGet buf (item - index + of_nat i)))
          [0 ..< Suc (unat (mask_rb buf))] (\<lambda>_. None)"

definition rbufferGrow :: "'a rbuffer \<Rightarrow> 64 word \<Rightarrow> 64 word \<Rightarrow> 'a rbuffer option" where
  "rbufferGrow buf item index =
     (case rbufferGrowSize (mask_rb buf + 1) index of
        None \<Rightarrow> None
      | Some sz \<Rightarrow>
          Some \<lparr>mask_rb = sz - 1,
                elements = rbufferGrowCopy buf item index (sz - 1)\<rparr>)"

definition rbufferEnsureSize :: "'a rbuffer \<Rightarrow> 64 word \<Rightarrow> 64 word \<Rightarrow> 'a rbuffer option" where
  "rbufferEnsureSize buf item index =
     (if index > mask_rb buf then rbufferGrow buf item index else Some buf)"

subsection \<open>Sizes and limits\<close>

definition getUdpMtu :: nat where
  "getUdpMtu = UDP_IPV4_MTU"

text \<open>\<open>sizeof(struct packet)\<close>, packed: 1 + 1 + 2 + 4 + 2 + 2 bytes.\<close>

definition getPacketHeaderSize :: nat where
  "getPacketHeaderSize = 1 + 1 + 2 + 4 + 2 + 2"

text \<open>\<open>sizeof(struct packetWithSAck)\<close>, packed: the header, \<open>next\<close>, \<open>len\<close>, \<open>mask[1]\<close>.\<close>

definition getPacketWithSAckHeaderSize :: nat where
  "getPacketWithSAckHeaderSize = getPacketHeaderSize + 1 + 1 + 1"

definition getMaxPacketPayloadSize :: nat where
  "getMaxPacketPayloadSize = getUdpMtu - getPacketHeaderSize"

definition limitedRetransmitTimeout :: "32 word \<Rightarrow> 32 word" where
  "limitedRetransmitTimeout t =
     (if t > 0 then of_nat (min RDP_RETRANSMIT_TIMEOUT_MAX (max RDP_RETRANSMIT_TIMEOUT_MIN (unat t)))
      else of_nat RDP_RETRANSMIT_TIMEOUT_DEFAULT)"

definition limitedWindow :: "32 word \<Rightarrow> 32 word" where
  "limitedWindow t =
     (if t > 0 then of_nat (min RDP_WINDOW_SIZE_MAX (max getMaxPacketPayloadSize (unat t)))
      else of_nat RDP_WINDOW_SIZE_DEFAULT)"

subsection \<open>Send slots, connections, sockets\<close>

text \<open>
  \<open>struct packetWrap\<close>. \<open>payload\<close> is a byte count (a \<open>size_t\<close> that the code keeps at most
  \<open>getMaxPacketPayloadSize\<close>), \<open>transmissions\<close> a 31-bit field, \<open>needResend\<close> a 1-bit
  field. The bytes \<open>data\<close> are the header, \<open>pkt\<close>, followed by the payload, \<open>body\<close>.
\<close>

record packetWrap =
  payload :: nat
  sentTime :: "64 word"
  transmissions :: "31 word"
  needResend :: bool
  pkt :: packet
  body :: "8 word list"

text \<open>
  \<open>struct rdpConn\<close>. The back pointer \<open>rdpSocket\<close> is not a field: the socket is passed
  next to the connection. \<open>oldestResent\<close> is an \<open>int32_t\<close>, read with \<open>sint\<close>. A receive slot of \<open>inbuf\<close> is the payload it holds
  (its length prefix is the length of the list). The address is the \<open>addrlen\<close> bytes
  that \<open>rdpConnInit\<close> copies.
\<close>

record rdpConn =
  inbuf :: "8 word list rbuffer"
  outbuf :: "packetWrap rbuffer"
  userData :: nat
  lastReceivedPacket :: "64 word"
  lastSentPacket :: "64 word"
  rtt :: "32 word"
  rttVar :: "32 word"
  nextRetransmitTimeout :: "32 word"
  retransmitTimeout :: "32 word"
  retransmitTicker :: "64 word"
  state :: connState
  flightWindow :: "32 word"
  flightWindowLimit :: "32 word"
  recvWindowPeer :: "32 word"
  recvWindowSelf :: "32 word"
  oldestResent :: "32 word"
  idSeed :: "16 word"
  recvId :: "16 word"
  sendId :: "16 word"
  queue :: "16 word"
  outOfOrderCnt :: "16 word"
  seqnr :: "16 word"
  acknr :: "16 word"
  eofseqnr :: "16 word"
  receivedFinCompleted :: bool
  receivedFin :: bool
  needSendAck :: bool
  addrlen :: nat
  addr :: "8 word list"

text \<open>A datagram handed to \<open>sendto\<close>: destination, header, and the bytes after it.\<close>

record datagram =
  dg_addr :: "8 word list"
  dg_hdr :: packet
  dg_body :: "8 word list"

text \<open>
  \<open>struct rdpSocket\<close>. \<open>conns\<close> lists, head first, the key \<open>(addr, recvId)\<close> of each
  registered connection: the fields \<open>listEqualRdpConn\<close> compares. The descriptor \<open>fd\<close>
  is the list \<open>wire\<close> of the datagrams passed to \<open>sendto\<close> on it, oldest first.
  \<open>nextCheckTimeout\<close> is an \<open>int\<close>, read with \<open>sint\<close>.
\<close>

record rdpSocket =
  conns :: "(8 word list \<times> 16 word) list"
  mstime :: "64 word"
  lastCheck :: "64 word"
  nextCheckTimeout :: "32 word"
  wire :: "datagram list"

type_synonym rdpVec = "8 word list"

datatype errno = EINVAL | EAGAIN

section \<open>Connection set-up\<close>

text \<open>
  \<open>listNodeFind\<close> of the list library with \<open>listEqualRdpConn\<close> as the comparison: the
  first registered connection with the same \<open>recvId\<close>, \<open>addrlen\<close> and address bytes.
\<close>

definition findRdpConnInRdpSocket ::
  "rdpSocket \<Rightarrow> 8 word list \<Rightarrow> 16 word \<Rightarrow> (8 word list \<times> 16 word) option" where
  "findRdpConnInRdpSocket s a rid = find (\<lambda>k. k = (a, rid)) (conns s)"

text \<open>
  The loop \<open>do idSeed = rand() & 0xffff; while (findRdpConnInRdpSocket(...));\<close>. The results
  of the successive calls of \<open>rand()\<close> are the list \<open>rands\<close>; the loop returns the seed
  and the draws it has not used. \<open>None\<close>: the loop has not ended within the draws given.
\<close>

fun rdpConnInitSeed ::
  "rdpSocket \<Rightarrow> 8 word list \<Rightarrow> nat list \<Rightarrow> (16 word \<times> nat list) option" where
  "rdpConnInitSeed s a [] = None"
| "rdpConnInitSeed s a (r # rs) =
     (let sd = (of_nat (r AND 0xffff) :: 16 word) in
      if findRdpConnInRdpSocket s a sd \<noteq> None then rdpConnInitSeed s a rs
      else Some (sd, rs))"

definition rdpConnInit ::
  "rdpSocket \<Rightarrow> rdpConn \<Rightarrow> 8 word list \<Rightarrow> bool \<Rightarrow> 16 word \<Rightarrow> 16 word \<Rightarrow> 16 word \<Rightarrow> nat list
     \<Rightarrow> (rdpSocket \<times> rdpConn \<times> nat list) option" where
  "rdpConnInit s c a generateSeed idSeed0 recvId0 sendId0 rands =
     (case (if generateSeed then
              (case rdpConnInitSeed s a rands of
                 None \<Rightarrow> None
               | Some (sd, rs) \<Rightarrow> Some (sd, recvId0 + sd, sendId0 + sd, rs))
            else Some (idSeed0, recvId0, sendId0, rands)) of
        None \<Rightarrow> None
      | Some (sd, rid, sid, rs) \<Rightarrow>
          Some (s\<lparr>conns := (a, rid) # conns s\<rparr>,
                c\<lparr>addr := a, addrlen := length a, idSeed := sd, recvId := rid, sendId := sid,
                  lastReceivedPacket := mstime s\<rparr>,
                rs))"

text \<open>
  \<open>rdpConnCreate\<close> for a socket that is not \<open>NULL\<close>; \<open>r\<close> is the result of \<open>rand()\<close>.
  The two ring buffers are fields of the allocated connection; \<open>rbufferInit\<close> sets both
  of their fields.
\<close>

definition rdpConnCreate :: "nat \<Rightarrow> rdpConn" where
  "rdpConnCreate r =
     \<lparr>inbuf = rbufferInit \<lparr>mask_rb = 0, elements = (\<lambda>_. None)\<rparr>,
      outbuf = rbufferInit \<lparr>mask_rb = 0, elements = (\<lambda>_. None)\<rparr>, userData = 0,
      lastReceivedPacket = 0, lastSentPacket = 0, rtt = 0, rttVar = 0,
      nextRetransmitTimeout = limitedRetransmitTimeout 0, retransmitTimeout = 0,
      retransmitTicker = 0, state = CS_UNINITIALIZED, flightWindow = 0,
      flightWindowLimit = limitedWindow 0,
      recvWindowPeer = limitedWindow (of_nat RDP_WINDOW_SIZE_MAX),
      recvWindowSelf = limitedWindow (of_nat RDP_WINDOW_SIZE_MAX),
      oldestResent = -1, idSeed = 0, recvId = 0, sendId = 0, queue = 0, outOfOrderCnt = 0,
      seqnr = of_nat r, acknr = 0, eofseqnr = 0, receivedFinCompleted = False,
      receivedFin = False, needSendAck = False, addrlen = 0, addr = []\<rparr>"

definition sendToAddr :: "rdpSocket \<Rightarrow> rdpConn \<Rightarrow> packet \<Rightarrow> 8 word list \<Rightarrow> rdpSocket" where
  "sendToAddr s c h bs = s\<lparr>wire := wire s @ [\<lparr>dg_addr = addr c, dg_hdr = h, dg_body = bs\<rparr>]\<rparr>"

definition sendData ::
  "rdpSocket \<Rightarrow> rdpConn \<Rightarrow> packet \<Rightarrow> 8 word list \<Rightarrow> rdpSocket \<times> rdpConn" where
  "sendData s c h bs =
     (let c' = c\<lparr>lastSentPacket := mstime s\<rparr> in (sendToAddr s c' h bs, c'))"

text \<open>
  \<open>sendPacketWrap(c, pw)\<close>, where \<open>pw\<close> is the slot of \<open>c->outbuf\<close> at index \<open>i\<close>: the
  source changes the slot through the pointer, the model writes it back to its cell.
  \<open>None\<close> is the failed \<open>assert\<close> (or a \<open>NULL\<close> slot).
\<close>

definition sendPacketWrap :: "rdpSocket \<Rightarrow> rdpConn \<Rightarrow> 64 word \<Rightarrow> (rdpSocket \<times> rdpConn) option" where
  "sendPacketWrap s c i =
     (case rbufferGet (outbuf c) i of
        None \<Rightarrow> None
      | Some pw \<Rightarrow>
          if \<not> (transmissions pw = 0 \<or> needResend pw) then None
          else
            let pw' = pw\<lparr>needResend := False, pkt := (pkt pw)\<lparr>p_acknr := acknr c\<rparr>,
                        sentTime := mstime s, transmissions := transmissions pw + 1\<rparr>;
                c' = c\<lparr>flightWindow := flightWindow c + of_nat (payload pw),
                       outbuf := rbufferPut (outbuf c) i (Some pw')\<rparr>
            in Some (sendData s c' (pkt pw') (take (payload pw') (body pw'))))"

text \<open>
  \<open>rdpConnect\<close>. \<open>now\<close> is the value \<open>mstime()\<close> returns. The slot is allocated with
  \<open>malloc\<close>; \<open>sentTime\<close> and \<open>needResend\<close> are not set before \<open>sendPacketWrap\<close> sets
  them, and stand here as \<open>0\<close> and \<open>False\<close>.
\<close>

definition rdpConnect ::
  "rdpSocket \<Rightarrow> rdpConn option \<Rightarrow> 8 word list \<Rightarrow> 64 word \<Rightarrow> nat list
     \<Rightarrow> (int \<times> rdpSocket \<times> rdpConn option) option" where
  "rdpConnect s copt a now rands =
     (case copt of
        None \<Rightarrow> Some (-1, s, None)
      | Some c \<Rightarrow>
          if state c \<noteq> CS_UNINITIALIZED then Some (-1, s, Some c)
          else
            (case rdpConnInit (s\<lparr>mstime := now\<rparr>) c a True 0 0 1 rands of
               None \<Rightarrow> None
             | Some (s1, c1, rs) \<Rightarrow>
                 let c2 = c1\<lparr>state := CS_SYN_SENT\<rparr>;
                     c3 = c2\<lparr>retransmitTimeout := nextRetransmitTimeout c2\<rparr>;
                     c4 = c3\<lparr>retransmitTicker := mstime s1 + ucast (retransmitTimeout c3)\<rparr>;
                     p0 = \<lparr>versionAndType = 0, reserve = 0, p_connId = 0, p_window = 0,
                           p_seqnr = 0, p_acknr = 0\<rparr>;
                     p1 = packetSetType (packetSetVersion p0 1) ST_SYN;
                     p2 = p1\<lparr>reserve := 0, p_connId := recvId c4, p_window := recvWindowSelf c4,
                             p_seqnr := seqnr c4\<rparr>;
                     pw = \<lparr>payload = 0, sentTime = 0, transmissions = 0, needResend = False,
                           pkt = p2, body = []\<rparr>
                 in (case rbufferEnsureSize (outbuf c4) (ucast (seqnr c4)) (ucast (queue c4)) of
                       None \<Rightarrow> None
                     | Some ob \<Rightarrow>
                         let c5 = c4\<lparr>outbuf := rbufferPut ob (ucast (seqnr c4)) (Some pw)\<rparr>;
                             c6 = c5\<lparr>seqnr := seqnr c5 + 1\<rparr>;
                             c7 = c6\<lparr>queue := queue c6 + 1\<rparr>
                         in (case sendPacketWrap s1 c7 (ucast (seqnr c4)) of
                               None \<Rightarrow> None
                             | Some (s2, c8) \<Rightarrow> Some (0, s2, Some c8)))))"

section \<open>Acknowledgement numbers\<close>

text \<open>
  \<open>sixteenAfter\<close>: both casts to \<open>int16_t\<close>, the subtraction in \<open>int\<close>, the cast of the
  difference to \<open>int16_t\<close> (two's complement), and the comparison with 0.
\<close>

definition sixteenAfter :: "16 word \<Rightarrow> 16 word \<Rightarrow> bool" where
  "sixteenAfter a b = (sint (word_of_int (sint a - sint b) :: 16 word) < 0)"

text \<open>
  \<open>rdpReadPoll\<close>, lines 1432 to 1451: the packet \<open>p\<close> of type \<open>ST_STATE\<close>, \<open>ST_DATA\<close> or
  \<open>ST_FIN\<close> has been matched to the connection \<open>c\<close>. \<open>Inl (r, c')\<close> is the return of \<open>r\<close>
  with the connection left as \<open>c'\<close>; \<open>Inr c\<close> is the packet going on to the rest of the
  function. The arguments of \<open>sixteenAfter\<close> are computed in \<open>int\<close> and converted to
  \<open>uint16_t\<close> at the call.
\<close>

definition rdpReadPollAcknr :: "rdpConn \<Rightarrow> packet \<Rightarrow> (int \<times> rdpConn) + rdpConn" where
  "rdpReadPollAcknr c p =
     (let packnr = p_acknr p in
      if state c = CS_DESTROY then Inl (-1, c)
      else if sixteenAfter (word_of_int (uint (seqnr c) - 1)) packnr
              \<or> sixteenAfter packnr
                   (word_of_int (uint (seqnr c) - 1 - uint (queue c)
                                 - int RDP_ACK_NR_RECV_BEHIND_ALLOWED))
           then Inl (-1, c)
      else Inr c)"

definition rdpConnFlightWindowFull :: "rdpConn \<Rightarrow> bool" where
  "rdpConnFlightWindowFull c =
     (flightWindow c + of_nat getMaxPacketPayloadSize
        > min (flightWindowLimit c) (recvWindowPeer c))"

section \<open>Acknowledging send slots\<close>

text \<open>
  The estimator update of \<open>ackPacket\<close> (the body of \<open>if (pw->transmissions == 1)\<close>). The
  casts \<open>(int)c->rtt\<close>, \<open>(int)packetRtt\<close> and \<open>(int)c->rttVar\<close> read the 32-bit fields as
  two's complement; the subtractions are 32-bit \<open>int\<close> subtractions, which wrap around
  in the compiled code, and \<open>abs\<close> negates a negative \<open>int\<close> (so \<open>abs(INT_MIN)\<close> is
  \<open>INT_MIN\<close>). \<open>/\<close> truncates towards zero, and the quotient is added to the \<open>uint32_t\<close>
  field modulo \<open>2^32\<close>. \<open>rttVar\<close> is updated first, from the old \<open>rtt\<close>.
\<close>

definition ackPacketRtt :: "rdpSocket \<Rightarrow> rdpConn \<Rightarrow> packetWrap \<Rightarrow> rdpConn" where
  "ackPacketRtt s c pw =
     (let packetRtt = (ucast (mstime s - sentTime pw) :: 32 word);
          c1 = (if rtt c = 0 then c\<lparr>rtt := packetRtt, rttVar := packetRtt div 2\<rparr>
                else
                  let d = rtt c - packetRtt;
                      a = (if sint d < 0 then - d else d);
                      c' = c\<lparr>rttVar := rttVar c + word_of_int (sint (a - rttVar c) sdiv 4)\<rparr>
                  in c'\<lparr>rtt := rtt c' + word_of_int (sint (packetRtt - rtt c') sdiv 8)\<rparr>)
      in c1\<lparr>nextRetransmitTimeout := limitedRetransmitTimeout (rtt c1 + rttVar c1 * 4)\<rparr>)"

text \<open>\<open>ackPacket\<close>: the connection after the call and the value returned.\<close>

definition ackPacket :: "rdpSocket \<Rightarrow> rdpConn \<Rightarrow> 16 word \<Rightarrow> (rdpConn \<times> int) option" where
  "ackPacket s c i =
     (case rbufferGet (outbuf c) (ucast i) of
        None \<Rightarrow> Some (c, -1)
      | Some pw \<Rightarrow>
          if transmissions pw = 0 then Some (c, -1)
          else
            let c1 = c\<lparr>outbuf := rbufferPut (outbuf c) (ucast i) None\<rparr>;
                c2 = (if transmissions pw = 1 then ackPacketRtt s c1 pw else c1)
            in if \<not> needResend pw then
                 (if \<not> unat (flightWindow c2) \<ge> payload pw then None
                  else Some (c2\<lparr>flightWindow := flightWindow c2 - of_nat (payload pw)\<rparr>, 0))
               else Some (c2, 0))"




section \<open>Sending acknowledgements\<close>

text \<open>
  The loop over the groups of 32 bits in \<open>sendAck\<close>. \<open>len\<close> is a \<open>size_t\<close> and
  \<open>len -= 32\<close> wraps; \<open>msk\<close> is the array \<open>ps->mask\<close> of \<open>sackSize\<close> bytes. The index
  \<open>c->acknr + i + 2 + group * 32\<close> (\<open>grp\<close> is \<open>group\<close>) is computed in \<open>size_t\<close>.
\<close>

function sendAckGroups :: "rdpConn \<Rightarrow> nat \<Rightarrow> nat \<Rightarrow> 64 word \<Rightarrow> 8 word list \<Rightarrow> 8 word list" where
  "sendAckGroups c sackSize grp len msk =
     (if grp < sackSize div 4 \<and> len > 0 then
        let m = fold (\<lambda>i m. if rbufferGet (inbuf c)
                                   (ucast (acknr c) + of_nat i + 2 + of_nat (grp * 32)) \<noteq> None
                              then m OR push_bit i 1 else m)
                     [0 ..< unat (min 32 len)] (0 :: 32 word);
            msk' = msk[0 + grp * 4 := ucast m,
                       1 + grp * 4 := ucast (drop_bit 8 m),
                       2 + grp * 4 := ucast (drop_bit 16 m),
                       3 + grp * 4 := ucast (drop_bit 24 m)]
        in sendAckGroups c sackSize (grp + 1) (len - 32) msk'
      else msk)"
  by pat_completeness auto
termination
  by (relation "measure (\<lambda>(c, sackSize, grp, len, msk). sackSize div 4 - grp)") auto

text \<open>
  The end of \<open>sendAck\<close>, common to both branches (lines 902 to 915): the header \<open>p\<close> is
  completed and sent with the bytes \<open>ext\<close> that follow it.
\<close>

definition sendAckEmit ::
  "rdpSocket \<Rightarrow> rdpConn \<Rightarrow> packet \<Rightarrow> 8 word list \<Rightarrow> rdpSocket \<times> rdpConn" where
  "sendAckEmit s c p ext =
     (let p1 = packetSetType (packetSetVersion p 1) ST_STATE;
          p2 = p1\<lparr>p_connId := sendId c, p_acknr := acknr c, p_seqnr := seqnr c,
                  p_window := recvWindowSelf c\<rparr>
      in case sendData s c p2 ext of (s', c') \<Rightarrow> (s', c'\<lparr>needSendAck := False\<rparr>))"

text \<open>
  \<open>sendAck\<close>. With the extension the datagram is the header, the bytes \<open>next = 0\<close> and
  \<open>len = sackSize\<close> (stored in a \<open>uint8_t\<close>), and \<open>sackSize\<close> bytes of mask.
\<close>

definition sendAck :: "rdpSocket \<Rightarrow> rdpConn \<Rightarrow> (rdpSocket \<times> rdpConn) option" where
  "sendAck s c =
     (let p0 = \<lparr>versionAndType = 0, reserve = 0, p_connId = 0, p_window = 0,
                p_seqnr = 0, p_acknr = 0\<rparr> in
      if outOfOrderCnt c \<noteq> 0 \<and> state c \<noteq> CS_SYN_RECV \<and> \<not> receivedFinCompleted c then
        let sackSize = unat (outOfOrderCnt c) div 8 + 1 + 3
                       - ((unat (outOfOrderCnt c) div 8 + 1 + 3) mod 4) in
        if rbufferGet (inbuf c) (word_of_int (uint (acknr c) + 1)) \<noteq> None then None
        else
          let len = min (of_nat (sackSize * 8)) (mask_rb (inbuf c));
              msk = sendAckGroups c sackSize 0 len (replicate sackSize 0)
          in Some (sendAckEmit s c (p0\<lparr>reserve := 1\<rparr>) ([0, of_nat sackSize] @ msk))
      else Some (sendAckEmit s c (p0\<lparr>reserve := 0\<rparr>) []))"

definition rdpConnKeepAlive :: "rdpSocket \<Rightarrow> rdpConn \<Rightarrow> (rdpSocket \<times> rdpConn) option" where
  "rdpConnKeepAlive s c =
     (case sendAck s (c\<lparr>acknr := acknr c - 1\<rparr>) of
        None \<Rightarrow> None
      | Some (s', c') \<Rightarrow> Some (s', c'\<lparr>acknr := acknr c' + 1\<rparr>))"

section \<open>The send path\<close>

text \<open>
  The loop of \<open>rdpConnFlushPackets\<close>,
  \<open>for (uint16_t i = c->seqnr - c->queue; i != c->seqnr; i++)\<close>, from \<open>i\<close> on.
\<close>

function rdpConnFlushPacketsLoop ::
  "rdpSocket \<Rightarrow> rdpConn \<Rightarrow> 16 word \<Rightarrow> (rdpSocket \<times> rdpConn \<times> int) option" where
  "rdpConnFlushPacketsLoop s c i =
     (if i \<noteq> seqnr c then
        (case rbufferGet (outbuf c) (ucast i) of
           None \<Rightarrow> rdpConnFlushPacketsLoop s c (i + 1)
         | Some pw \<Rightarrow>
             if transmissions pw > 0 \<and> \<not> needResend pw then rdpConnFlushPacketsLoop s c (i + 1)
             else if rdpConnFlightWindowFull c then Some (s, c, -1)
             else (case sendPacketWrap s c (ucast i) of
                     None \<Rightarrow> None
                   | Some (s', c') \<Rightarrow> rdpConnFlushPacketsLoop s' c' (i + 1)))
      else Some (s, c, 0))"
  by pat_completeness auto
termination
proof (relation "measure (\<lambda>(s, c, i). unat (seqnr c - i))")
  have step: "unat (x - (i + 1)) < unat (x - i)" if "i \<noteq> x" for x i :: "16 word"
  proof -
    have eq: "x - (i + 1) = x - i - 1" by simp
    have "x - i \<noteq> 0" using that by simp
    then have "unat (x - i - 1) < unat (x - i)"
      by (simp add: unat_minus_one unat_gt_0)
    then show ?thesis by (simp only: eq)
  qed
  show "wf (measure (\<lambda>(s, c, i). unat (seqnr c - i)))" by simp
  show "((s, c, i + 1), s, c, i) \<in> measure (\<lambda>(s, c, i). unat (seqnr c - i))"
    if "i \<noteq> seqnr c" for s :: rdpSocket and c :: rdpConn and i
    using step [OF that] by simp
  show "((s, c, i + 1), s, c, i) \<in> measure (\<lambda>(s, c, i). unat (seqnr c - i))"
    if "i \<noteq> seqnr c" for s :: rdpSocket and c :: rdpConn and i and x2 :: packetWrap
    using step [OF that] by simp
  show "((s', c', i + 1), s, c, i) \<in> measure (\<lambda>(s, c, i). unat (seqnr c - i))"
    if "i \<noteq> seqnr c" and "sendPacketWrap s c (ucast i) = Some x2a" and "(s', c') = x2a"
    for s c i x2a s' c'
  proof -
    have "seqnr c' = seqnr c"
      using that(2,3)
      by (auto simp: sendPacketWrap_def sendData_def Let_def split: option.splits if_splits)
    then show ?thesis using step [OF that(1)] by simp
  qed
qed

definition rdpConnFlushPackets :: "rdpSocket \<Rightarrow> rdpConn \<Rightarrow> (rdpSocket \<times> rdpConn \<times> int) option" where
  "rdpConnFlushPackets s c = rdpConnFlushPacketsLoop s c (seqnr c - queue c)"

text \<open>
  The copy loop of \<open>buildSendPacket\<close>: \<open>needed\<close> bytes are taken from the front of the
  vectors, which are shortened by what is taken. The result is the bytes copied, the
  vectors left, and what is still needed at the end. A vector is the list of its
  \<open>len\<close> bytes from \<open>base\<close> on.
\<close>

fun gatherVec :: "rdpVec list \<Rightarrow> nat \<Rightarrow> 8 word list \<times> rdpVec list \<times> nat" where
  "gatherVec [] needed = ([], [], needed)"
| "gatherVec (v # vs) needed =
     (if needed = 0 then ([], v # vs, needed)
      else if length v = 0 then
        (case gatherVec vs needed of (bs, vs', n) \<Rightarrow> (bs, v # vs', n))
      else
        let num = min needed (length v) in
        (case gatherVec vs (needed - num) of
           (bs, vs', n) \<Rightarrow> (take num v @ bs, drop num v # vs', n)))"

text \<open>
  \<open>buildSendPacket\<close>, lines 997 to 1027: \<open>roundPayload\<close> bytes are copied behind the
  payload of the slot, and the header is set. \<open>None\<close> is a failed \<open>assert\<close>.
\<close>

definition buildSendPacketFill ::
  "rdpConn \<Rightarrow> packetWrap \<Rightarrow> nat \<Rightarrow> 8 word \<Rightarrow> rdpVec list \<Rightarrow> (packetWrap \<times> rdpVec list) option" where
  "buildSendPacketFill c pw roundPayload type vec =
     (case (if roundPayload \<noteq> 0 then
              (if type \<noteq> ST_DATA then None
               else (case gatherVec vec roundPayload of
                       (bs, vec', needed) \<Rightarrow>
                         if needed \<noteq> 0 then None
                         else Some (pw\<lparr>body := take (payload pw) (body pw) @ bs\<rparr>, vec')))
            else Some (pw, vec)) of
        None \<Rightarrow> None
      | Some (pw1, vec') \<Rightarrow>
          let pw2 = pw1\<lparr>payload := payload pw1 + roundPayload\<rparr>;
              p1 = packetSetType (packetSetVersion (pkt pw2) 1) type;
              p2 = p1\<lparr>reserve := 0, p_connId := sendId c, p_window := recvWindowSelf c,
                      p_acknr := acknr c\<rparr>
          in Some (pw2\<lparr>pkt := p2\<rparr>, vec'))"

text \<open>
  One pass of the body of the \<open>do ... while (payload)\<close> loop of \<open>buildSendPacket\<close>; the
  third component of the result is \<open>roundPayload\<close>. A new slot comes from \<open>malloc\<close>: its
  header and \<open>sentTime\<close> are not set by \<open>malloc\<close> and stand here as zero; every header
  field is assigned before the pass ends.
\<close>

definition buildSendPacketStep ::
  "rdpConn \<Rightarrow> nat \<Rightarrow> 8 word \<Rightarrow> rdpVec list \<Rightarrow> (rdpConn \<times> rdpVec list \<times> nat) option" where
  "buildSendPacketStep c payld type vec =
     (if \<not> unat (queue c) < RDP_QUEUE_SIZE_MAX then None
      else
        let pw0 = (if queue c > 0 then rbufferGet (outbuf c) (word_of_int (uint (seqnr c) - 1))
                   else None)
        in case (case pw0 of
                   None \<Rightarrow> None
                 | Some pw \<Rightarrow>
                     if payld \<noteq> 0 \<and> transmissions pw = 0 \<and> payload pw < getMaxPacketPayloadSize
                     then Some pw else None) of
             Some pw \<Rightarrow>
               let roundPayload = min (payld + payload pw) getMaxPacketPayloadSize - payload pw in
               (case buildSendPacketFill c pw roundPayload type vec of
                  None \<Rightarrow> None
                | Some (pw', vec') \<Rightarrow>
                    Some (c\<lparr>outbuf := rbufferPut (outbuf c) (word_of_int (uint (seqnr c) - 1))
                                         (Some pw')\<rparr>,
                          vec', roundPayload))
           | None \<Rightarrow>
               let roundPayload = payld;
                   pw = \<lparr>payload = 0, sentTime = 0, transmissions = 0, needResend = False,
                         pkt = \<lparr>versionAndType = 0, reserve = 0, p_connId = 0, p_window = 0,
                                p_seqnr = 0, p_acknr = 0\<rparr>,
                         body = []\<rparr>
               in (case buildSendPacketFill c pw roundPayload type vec of
                     None \<Rightarrow> None
                   | Some (pw', vec') \<Rightarrow>
                       (case rbufferEnsureSize (outbuf c) (ucast (seqnr c)) (ucast (queue c)) of
                          None \<Rightarrow> None
                        | Some ob \<Rightarrow>
                            let pw'' = pw'\<lparr>pkt := (pkt pw')\<lparr>p_seqnr := seqnr c\<rparr>\<rparr>;
                                c1 = c\<lparr>outbuf := rbufferPut ob (ucast (seqnr c)) (Some pw'')\<rparr>;
                                c2 = c1\<lparr>seqnr := seqnr c1 + 1\<rparr>;
                                c3 = c2\<lparr>queue := queue c2 + 1\<rparr>
                            in Some (c3, vec', roundPayload))))"

function buildSendPacketLoop ::
  "rdpConn \<Rightarrow> nat \<Rightarrow> 8 word \<Rightarrow> rdpVec list \<Rightarrow> (rdpConn \<times> rdpVec list) option" where
  "buildSendPacketLoop c payld type vec =
     (case buildSendPacketStep c payld type vec of
        None \<Rightarrow> None
      | Some (c', vec', roundPayload) \<Rightarrow>
          if payld - roundPayload \<noteq> 0
          then buildSendPacketLoop c' (payld - roundPayload) type vec'
          else Some (c', vec'))"
  by pat_completeness auto
termination
proof (relation "measure (\<lambda>(c, payld, type, vec). payld)")
  show "wf (measure (\<lambda>(c, payld, type, vec). payld))" by simp
  show "((c', payld - roundPayload, type, vec'), c, payld, type, vec)
          \<in> measure (\<lambda>(c, payld, type, vec). payld)"
    if "buildSendPacketStep c payld type vec = Some x2" and "(c', y) = x2"
      and "(vec', roundPayload) = y" and "payld - roundPayload \<noteq> 0"
    for c payld type vec x2 c' y vec' roundPayload
  proof -
    have "0 < roundPayload"
      using that
      by (auto simp: buildSendPacketStep_def buildSendPacketFill_def Let_def
               split: option.splits if_splits prod.splits)
    then show ?thesis using that(4) by simp
  qed
qed

definition buildSendPacket ::
  "rdpConn \<Rightarrow> nat \<Rightarrow> 8 word \<Rightarrow> rdpVec list \<Rightarrow> (rdpConn \<times> rdpVec list) option" where
  "buildSendPacket c payld type vec =
     (if \<not> (queue c > 0 \<or> (queue c = 0 \<and> flightWindow c = 0)) then None
      else if \<not> payld \<le> getMaxPacketPayloadSize then None
      else buildSendPacketLoop c payld type vec)"

text \<open>
  The loop \<open>while (c->queue < RDP_QUEUE_SIZE_MAX - 1)\<close> of \<open>rdpWriteVec\<close>, with its
  \<open>break\<close>. The result is the connection, the vectors, \<open>total\<close> (here \<open>tot\<close>) and \<open>sent\<close>.
\<close>

function rdpWriteVecLoop ::
  "rdpConn \<Rightarrow> rdpVec list \<Rightarrow> nat \<Rightarrow> nat \<Rightarrow> nat \<Rightarrow> (rdpConn \<times> rdpVec list \<times> nat \<times> nat) option" where
  "rdpWriteVecLoop c vec tot sent validSend =
     (if unat (queue c) < RDP_QUEUE_SIZE_MAX - 1 then
        (case buildSendPacket c validSend ST_DATA vec of
           None \<Rightarrow> None
         | Some (c', vec') \<Rightarrow>
             if min (tot - validSend) getMaxPacketPayloadSize = 0
             then Some (c', vec', tot - validSend, sent + validSend)
             else rdpWriteVecLoop c' vec' (tot - validSend) (sent + validSend)
                    (min (tot - validSend) getMaxPacketPayloadSize))
      else Some (c, vec, tot, sent))"
  by pat_completeness auto
termination
  by (relation "measure (\<lambda>(c, vec, tot, sent, validSend).
                   tot + (if validSend = 0 then 1 else 0))")
     (auto simp: getMaxPacketPayloadSize_def)

text \<open>
  \<open>rdpWriteVec\<close>. The arguments \<open>c\<close> and \<open>vec\<close> may be \<open>NULL\<close> (\<open>None\<close>); \<open>vecCnt\<close> is
  the length of \<open>vec\<close>; \<open>now\<close> is the value \<open>mstime()\<close> returns. The result is the value
  returned, \<open>errno\<close> when the call sets it, the socket, the connection and the vectors.
  \<open>total\<close> is a \<open>size_t\<close> sum, which wraps at \<open>2^64\<close>; \<open>sent\<close> is returned as a
  \<open>ssize_t\<close>.
\<close>

definition rdpWriteVec ::
  "rdpSocket \<Rightarrow> rdpConn option \<Rightarrow> rdpVec list option \<Rightarrow> 64 word
     \<Rightarrow> (int \<times> errno option \<times> rdpSocket \<times> rdpConn option \<times> rdpVec list option) option" where
  "rdpWriteVec s copt vecopt now =
     (case copt of
        None \<Rightarrow> Some (-1, Some EINVAL, s, copt, vecopt)
      | Some c \<Rightarrow>
     (case vecopt of
        None \<Rightarrow> Some (-1, Some EINVAL, s, copt, vecopt)
      | Some vec \<Rightarrow>
          if length vec = 0 then Some (-1, Some EINVAL, s, copt, vecopt)
          else if length vec > RDP_MAX_VEC then Some (-1, Some EINVAL, s, copt, vecopt)
          else
            (case state c of
               CS_UNINITIALIZED \<Rightarrow> Some (-1, Some EINVAL, s, copt, vecopt)
             | CS_SYN_RECV \<Rightarrow> Some (-1, Some EINVAL, s, copt, vecopt)
             | CS_DESTROY \<Rightarrow> Some (-1, Some EINVAL, s, copt, vecopt)
             | CS_FIN_SENT \<Rightarrow> Some (-1, Some EINVAL, s, copt, vecopt)
             | CS_SYN_SENT \<Rightarrow> Some (-1, Some EAGAIN, s, copt, vecopt)
             | CS_CONNECTED_FULL \<Rightarrow> Some (-1, Some EAGAIN, s, copt, vecopt)
             | CS_CONNECTED \<Rightarrow>
                 let tot = sum_list (map length vec) mod 2 ^ 64 in
                 if rdpConnFlightWindowFull c
                 then Some (-1, Some EAGAIN, s, Some (c\<lparr>state := CS_CONNECTED_FULL\<rparr>), vecopt)
                 else
                   let s1 = s\<lparr>mstime := now\<rparr>;
                       validSend = min tot getMaxPacketPayloadSize
                   in (case rdpWriteVecLoop c vec tot 0 validSend of
                         None \<Rightarrow> None
                       | Some (c1, vec1, tot1, sent1) \<Rightarrow>
                           (case rdpConnFlushPackets s1 c1 of
                              None \<Rightarrow> None
                            | Some (s2, c2, r) \<Rightarrow>
                                let c3 = (if r = -1 then c2\<lparr>state := CS_CONNECTED_FULL\<rparr> else c2)
                                in if sent1 = 0 then
                                     (if tot1 = 0 then Some (0, None, s2, Some c3, Some vec1)
                                      else Some (-1, Some EAGAIN, s2, Some c3, Some vec1))
                                   else Some (sint (word_of_nat sent1 :: 64 word), None, s2,
                                              Some c3, Some vec1))))))"

section \<open>The periodic check\<close>

text \<open>
  The loop of \<open>rdpConnCheck\<close> that marks the slots to retransmit,
  \<open>for (uint16_t i = c->seqnr - c->queue; i != c->seqnr; i++)\<close>, from \<open>i\<close> on.
\<close>

function rdpConnCheckMark :: "rdpSocket \<Rightarrow> rdpConn \<Rightarrow> 16 word \<Rightarrow> rdpConn option" where
  "rdpConnCheckMark s c i =
     (if i \<noteq> seqnr c then
        (case rbufferGet (outbuf c) (ucast i) of
           None \<Rightarrow> rdpConnCheckMark s c (i + 1)
         | Some pw \<Rightarrow>
             if transmissions pw = 0 \<or> needResend pw
                \<or> mstime s < sentTime pw + ucast (retransmitTimeout c)
             then rdpConnCheckMark s c (i + 1)
             else if \<not> unat (flightWindow c) \<ge> payload pw then None
             else rdpConnCheckMark s
                    (c\<lparr>outbuf := rbufferPut (outbuf c) (ucast i) (Some (pw\<lparr>needResend := True\<rparr>)),
                       flightWindow := flightWindow c - of_nat (payload pw)\<rparr>)
                    (i + 1))
      else Some c)"
  by pat_completeness auto
termination
proof (relation "measure (\<lambda>(s, c, i). unat (seqnr c - i))")
  have step: "unat (x - (i + 1)) < unat (x - i)" if "i \<noteq> x" for x i :: "16 word"
  proof -
    have eq: "x - (i + 1) = x - i - 1" by simp
    have "x - i \<noteq> 0" using that by simp
    then have "unat (x - i - 1) < unat (x - i)"
      by (simp add: unat_minus_one unat_gt_0)
    then show ?thesis by (simp only: eq)
  qed
  show "wf (measure (\<lambda>(s, c, i). unat (seqnr c - i)))" by simp
  show "((s, c, i + 1), s, c, i) \<in> measure (\<lambda>(s, c, i). unat (seqnr c - i))"
    if "i \<noteq> seqnr c" for s :: rdpSocket and c :: rdpConn and i
    using step [OF that] by simp
  show "((s, c, i + 1), s, c, i) \<in> measure (\<lambda>(s, c, i). unat (seqnr c - i))"
    if "i \<noteq> seqnr c" for s :: rdpSocket and c :: rdpConn and i and x2 :: packetWrap
    using step [OF that] by simp
  show "((s, c\<lparr>outbuf := rbufferPut (outbuf c) (ucast i) (Some (x2\<lparr>needResend := True\<rparr>)),
               flightWindow := flightWindow c - word_of_nat (payload x2)\<rparr>, i + 1), s, c, i)
          \<in> measure (\<lambda>(s, c, i). unat (seqnr c - i))"
    if "i \<noteq> seqnr c" for s :: rdpSocket and c :: rdpConn and i and x2 :: packetWrap
    using step [OF that] by simp
qed

text \<open>
  \<open>resizeWindow\<close>. \<open>c->seqnr - c->queue\<close> is an \<open>int\<close>, compared with and stored in the
  \<open>int32_t\<close> field \<open>oldestResent\<close> as such. \<open>None\<close> is a failed \<open>assert\<close>.
\<close>

definition resizeWindow :: "rdpConn \<Rightarrow> (rdpConn \<times> int) option" where
  "resizeWindow c =
     (case rbufferGet (outbuf c) (word_of_int (uint (seqnr c) - uint (queue c))) of
        None \<Rightarrow> None
      | Some pw \<Rightarrow>
          if sint (oldestResent c) = -1
          then Some (c\<lparr>oldestResent := word_of_int (uint (seqnr c) - uint (queue c))\<rparr>, 0)
          else if sint (oldestResent c) = uint (seqnr c) - uint (queue c)
          then Some (c\<lparr>flightWindowLimit := limitedWindow (flightWindowLimit c div 2)\<rparr>, 0)
          else if sint (oldestResent c) \<noteq> uint (seqnr c) - uint (queue c)
          then Some (c\<lparr>flightWindowLimit := limitedWindow (flightWindowLimit c * 2),
                       oldestResent := word_of_int (uint (seqnr c) - uint (queue c))\<rparr>, 0)
          else None)"

text \<open>
  \<open>updateRetransmitTimeout\<close>. \<open>retransmitTimeout\<close> is a \<open>uint32_t\<close>: the subtraction
  wraps and the test \<open>c->retransmitTimeout < 0\<close> never holds.
\<close>

definition updateRetransmitTimeout :: "rdpSocket \<Rightarrow> rdpConn \<Rightarrow> (rdpConn \<times> int) option" where
  "updateRetransmitTimeout s c =
     (case (if queue c \<noteq> 0 then
              (case rbufferGet (outbuf c) (word_of_int (uint (seqnr c) - uint (queue c))) of
                 None \<Rightarrow> None
               | Some pw \<Rightarrow>
                   if transmissions pw = 0 then None
                   else if sentTime pw = 0 then None
                   else Some (ucast (mstime s - sentTime pw) :: 32 word))
            else Some 0) of
        None \<Rightarrow> None
      | Some afterLastSent \<Rightarrow>
          let c1 = c\<lparr>retransmitTimeout := nextRetransmitTimeout c - afterLastSent\<rparr>
          in Some (c1\<lparr>retransmitTicker := mstime s + ucast (retransmitTimeout c1)\<rparr>, 0))"

text \<open>
  \<open>rdpConnCheck\<close>, lines 1836 to 1875: the retransmission part, run in the states
  \<open>CS_SYN_SENT\<close>, \<open>CS_SYN_RECV\<close>, \<open>CS_CONNECTED_FULL\<close>, \<open>CS_CONNECTED\<close> and
  \<open>CS_FIN_SENT\<close>. The third component of the result is \<open>True\<close> when the function
  returns from here (\<open>return 0\<close>).
\<close>

definition rdpConnCheckTimeout ::
  "rdpSocket \<Rightarrow> rdpConn \<Rightarrow> (rdpSocket \<times> rdpConn \<times> bool) option" where
  "rdpConnCheckTimeout s c =
     (if mstime s \<ge> retransmitTicker c then
        if state c = CS_FIN_SENT \<and> mstime s \<ge> lastReceivedPacket c + of_nat RDP_WAIT_FIN_SENT
        then Some (s, c\<lparr>state := CS_DESTROY\<rparr>, True)
        else if state c = CS_SYN_RECV \<and> mstime s \<ge> lastReceivedPacket c + of_nat RDP_WAIT_SYN_RECV
        then Some (s, c\<lparr>state := CS_DESTROY\<rparr>, True)
        else
          (case (if queue c > 0 then
                   (case rdpConnCheckMark s c (seqnr c - queue c) of
                      None \<Rightarrow> None
                    | Some c1 \<Rightarrow>
                        (case resizeWindow c1 of
                           None \<Rightarrow> None
                         | Some (c2, r) \<Rightarrow>
                             (case rdpConnFlushPackets s c2 of
                                None \<Rightarrow> None
                              | Some (s3, c3, r') \<Rightarrow> Some (s3, c3))))
                 else Some (s, c)) of
             None \<Rightarrow> None
           | Some (s', c') \<Rightarrow>
               (case updateRetransmitTimeout s' c' of
                  None \<Rightarrow> None
                | Some (c'', r) \<Rightarrow> Some (s', c'', False)))
      else Some (s, c, False))"

text \<open>\<open>rdpConnCheck\<close>, lines 1877 to 1882: the keep-alive part.\<close>

definition rdpConnCheckKeepAlive :: "rdpSocket \<Rightarrow> rdpConn \<Rightarrow> (rdpSocket \<times> rdpConn) option" where
  "rdpConnCheckKeepAlive s c =
     (if state c = CS_CONNECTED \<or> state c = CS_CONNECTED_FULL then
        (if mstime s \<ge> lastSentPacket c + of_nat RDP_KEEPALIVE_INTERVAL
         then rdpConnKeepAlive s c
         else Some (s, c))
      else Some (s, c))"

text \<open>
  \<open>rdpConnCheck\<close>. The macros \<open>RDP_SOCKET_CHECK_TIMEOUT_MIN\<close> and
  \<open>RDP_SOCKET_CHECK_TIMEOUT_MAX\<close> come from \<open>rdp.h\<close> and are the parameters \<open>tmin\<close> and
  \<open>tmax\<close>, already converted to \<open>size_t\<close>. \<open>min\<close> and \<open>max\<close> of the source take
  \<open>size_t\<close>: the \<open>int\<close> field \<open>nextCheckTimeout\<close> is sign-extended on the way in, and the
  result is cut to 32 bits when it is stored. The function has no value to return at
  its end.
\<close>

definition rdpConnCheck ::
  "64 word \<Rightarrow> 64 word \<Rightarrow> rdpSocket \<Rightarrow> rdpConn \<Rightarrow> (rdpSocket \<times> rdpConn) option" where
  "rdpConnCheck tmin tmax s c =
     (if \<not> (queue c = 0
             \<or> rbufferGet (outbuf c) (word_of_int (uint (seqnr c) - uint (queue c))) \<noteq> None)
      then None
      else
        (case (if state c = CS_UNINITIALIZED \<or> state c = CS_DESTROY then Some (s, c, False)
               else
                 (case rdpConnCheckTimeout s c of
                    None \<Rightarrow> None
                  | Some (s1, c1, returned) \<Rightarrow>
                      if returned then Some (s1, c1, True)
                      else (case rdpConnCheckKeepAlive s1 c1 of
                              None \<Rightarrow> None
                            | Some (s2, c2) \<Rightarrow> Some (s2, c2, False)))) of
           None \<Rightarrow> None
         | Some (s', c', returned) \<Rightarrow>
             if returned then Some (s', c')
             else
               Some (s'\<lparr>nextCheckTimeout :=
                         ucast (min tmax
                                  (max tmin
                                     (min (scast (nextCheckTimeout s') :: 64 word)
                                          (retransmitTicker c' - mstime s'))))\<rparr>,
                     c')))"

declare sendAckGroups.simps [simp del]
declare rdpConnFlushPacketsLoop.simps [simp del]
declare buildSendPacketLoop.simps [simp del]
declare rdpWriteVecLoop.simps [simp del]
declare rdpConnCheckMark.simps [simp del]

section \<open>Ranges of sequence numbers\<close>

text \<open>
  \<open>x\<close> lies in \<open>[lo, hi]\<close> under signed 16-bit wrap-around distance: the distance from
  \<open>lo\<close> to \<open>x\<close> and the distance from \<open>x\<close> to \<open>hi\<close>, read as \<open>int16_t\<close>, are not
  negative.
\<close>

definition in_range16 :: "16 word \<Rightarrow> 16 word \<Rightarrow> 16 word \<Rightarrow> bool" where
  "in_range16 lo hi x = (0 \<le> sint (x - lo) \<and> 0 \<le> sint (hi - x))"

section \<open>Example states\<close>

text \<open>
  A socket whose clock reads 1000 ms, a send slot that was transmitted once at 700 ms,
  and a connection as \<open>rdpConnCreate\<close> leaves it (with \<open>rand()\<close> giving 100), then
  connected.
\<close>

definition ex_socket :: rdpSocket where
  "ex_socket = \<lparr>conns = [], mstime = 1000, lastCheck = 0, nextCheckTimeout = 0, wire = []\<rparr>"

definition ex_slot :: "16 word \<Rightarrow> packetWrap" where
  "ex_slot n =
     \<lparr>payload = 0, sentTime = 700, transmissions = 1, needResend = False,
      pkt = \<lparr>versionAndType = 0x01, reserve = 0, p_connId = 6, p_window = 0x1000000,
             p_seqnr = n, p_acknr = 0\<rparr>,
      body = []\<rparr>"

definition ex_conn :: rdpConn where
  "ex_conn = (rdpConnCreate 100)\<lparr>state := CS_CONNECTED, idSeed := 5, recvId := 5, sendId := 6\<rparr>"

text \<open>The connection with one packet in flight: sequence number 100, sent once.\<close>

definition ex_conn_sent :: rdpConn where
  "ex_conn_sent = ex_conn\<lparr>outbuf := rbufferPut (outbuf ex_conn) 100 (Some (ex_slot 100)),
                          seqnr := 101, queue := 1\<rparr>"

text \<open>
  A peer address (a 16-byte \<open>sockaddr_in\<close>), and the connection and the datagrams sent
  in the result of \<open>rdpConnect\<close>.
\<close>

definition ex_addr :: "8 word list" where
  "ex_addr = [2, 0, 35, 40, 127, 0, 0, 1, 0, 0, 0, 0, 0, 0, 0, 0]"

definition connectedConn :: "(int \<times> rdpSocket \<times> rdpConn option) option \<Rightarrow> rdpConn option" where
  "connectedConn res = (case res of None \<Rightarrow> None | Some (r, s, c) \<Rightarrow> c)"

definition connectedWire :: "(int \<times> rdpSocket \<times> rdpConn option) option \<Rightarrow> datagram list" where
  "connectedWire res = (case res of None \<Rightarrow> [] | Some (r, s, c) \<Rightarrow> wire s)"

subsection \<open>States for the periodic check\<close>

text \<open>
  An idle connected connection whose retransmission deadline lies in the future, a
  connection with one unacknowledged packet whose retransmission is due, and the types
  of the datagrams a check has put on the wire.
\<close>

definition ex_idle_socket :: rdpSocket where
  "ex_idle_socket = ex_socket\<lparr>mstime := 30000\<rparr>"

definition ex_idle_conn :: rdpConn where
  "ex_idle_conn = ex_conn\<lparr>retransmitTicker := 40000, acknr := 7\<rparr>"

definition checkedWire :: "(rdpSocket \<times> rdpConn) option \<Rightarrow> datagram list" where
  "checkedWire res = (case res of None \<Rightarrow> [] | Some (s, c) \<Rightarrow> wire s)"

definition wireTypes :: "datagram list \<Rightarrow> 8 word list" where
  "wireTypes dgs = map (\<lambda>dg. packetGetType (dg_hdr dg)) dgs"

definition ex_late_conn :: rdpConn where
  "ex_late_conn = ex_conn_sent\<lparr>retransmitTicker := 1200, retransmitTimeout := 500,
                               lastSentPacket := 700\<rparr>"

subsection \<open>A connection with a full send queue\<close>


subsection \<open>The connection a write leaves\<close>


section \<open>Selective acknowledgement, as specified\<close>






section \<open>Properties of the packet header\<close>

lemma low_nibble_mask: "(15 :: 8 word) = mask 4"
  by (simp add: mask_eq_exp_minus_1)

lemma high_nibble_mask: "(240 :: 8 word) = push_bit 4 (mask 4)"
  by (simp add: mask_eq_exp_minus_1 push_bit_eq_mult)

lemma nibble_set_low_get_low:
  fixes x v :: "8 word"
  shows "((x AND 0xf0) OR (v AND 0x0f)) AND 0x0f = v AND 0x0f"
  unfolding low_nibble_mask high_nibble_mask
  by (rule bit_word_eqI) (auto simp: bit_simps)

lemma nibble_set_low_get_high:
  fixes x v :: "8 word"
  shows "drop_bit 4 ((x AND 0xf0) OR (v AND 0x0f)) = drop_bit 4 x"
  unfolding low_nibble_mask high_nibble_mask
  by (rule bit_word_eqI) (auto simp: bit_simps dest: bit_imp_le_length)

lemma nibble_set_high_get_low:
  fixes x t :: "8 word"
  shows "((x AND 0x0f) OR push_bit 4 t) AND 0x0f = x AND 0x0f"
  unfolding low_nibble_mask
  by (rule bit_word_eqI) (auto simp: bit_simps)

lemma nibble_lt16: "(v :: 8 word) < 16 \<Longrightarrow> v AND mask 4 = v"
  using less_mask_eq [of v 4] by simp

lemma nibble_set_high_get_high:
  fixes x t :: "8 word"
  assumes "t < 16"
  shows "drop_bit 4 ((x AND 0x0f) OR push_bit 4 t) = t"
proof -
  have t: "t = t AND mask 4" using nibble_lt16 [OF assms] by simp
  have "drop_bit 4 ((x AND mask 4) OR push_bit 4 (t AND mask 4)) = t AND mask 4"
    by (rule bit_word_eqI) (auto simp: bit_simps)
  then show ?thesis using t by (simp add: low_nibble_mask)
qed

lemma versionAndType_packetSetVersion:
  "versionAndType (packetSetVersion p v) = (versionAndType p AND 0xf0) OR (v AND 0x0f)"
  by (simp add: packetSetVersion_def)

lemma versionAndType_packetSetType:
  "versionAndType (packetSetType p t) = (versionAndType p AND 0x0f) OR push_bit 4 t"
  by (simp add: packetSetType_def)

text \<open>
  Claim C10. For a header \<open>p\<close> and values \<open>v < 16\<close> and \<open>t < 16\<close>: after
  \<open>packetSetVersion p v\<close> the version read back is \<open>v\<close> and the type is the one \<open>p\<close>
  had; after \<open>packetSetType p t\<close> the type read back is \<open>t\<close> and the version is the one
  \<open>p\<close> had.
\<close>

theorem packet_nibbles_independent:
  assumes "v < 16" and "t < 16"
  shows "packetGetVersion (packetSetVersion p v) = v
         \<and> packetGetType (packetSetVersion p v) = packetGetType p
         \<and> packetGetType (packetSetType p t) = t
         \<and> packetGetVersion (packetSetType p t) = packetGetVersion p"
proof -
  have v: "v AND 0x0f = v" using nibble_lt16 [OF assms(1)] by (simp add: low_nibble_mask)
  have "packetGetVersion (packetSetVersion p v) = v AND 0x0f"
    by (simp only: packetGetVersion_def versionAndType_packetSetVersion nibble_set_low_get_low)
  then have 1: "packetGetVersion (packetSetVersion p v) = v"
    by (simp only: v)
  have 2: "packetGetType (packetSetVersion p v) = packetGetType p"
    by (simp only: packetGetType_def versionAndType_packetSetVersion nibble_set_low_get_high)
  have 3: "packetGetType (packetSetType p t) = t"
    by (simp only: packetGetType_def versionAndType_packetSetType
        nibble_set_high_get_high [OF assms(2)])
  have 4: "packetGetVersion (packetSetType p t) = packetGetVersion p"
    by (simp only: packetGetVersion_def versionAndType_packetSetType nibble_set_high_get_low)
  from 1 2 3 4 show ?thesis by blast
qed

theorem packet_nibbles_independent_witness:
  "(1 :: 8 word) < 16 \<and> ST_SYN < 16
   \<and> packetGetVersion (packetSetVersion (pkt (ex_slot 7)) 1) = 1
   \<and> packetGetType (packetSetVersion (pkt (ex_slot 7)) 1) = packetGetType (pkt (ex_slot 7))
   \<and> packetGetType (packetSetType (pkt (ex_slot 7)) ST_SYN) = ST_SYN
   \<and> packetGetVersion (packetSetType (pkt (ex_slot 7)) ST_SYN)
       = packetGetVersion (pkt (ex_slot 7))"
proof -
  have h1: "(1 :: 8 word) < 16" by simp
  have h2: "ST_SYN < 16" by (simp add: ST_SYN_def)
  show ?thesis
    using h1 h2 packet_nibbles_independent [OF h1 h2, of "pkt (ex_slot 7)"] by simp
qed

section \<open>The retransmission timeout after an acknowledgement\<close>

lemma limitedRetransmitTimeout_range:
  "200 \<le> unat (limitedRetransmitTimeout t) \<and> unat (limitedRetransmitTimeout t) \<le> 1000"
proof -
  have "unat (of_nat n :: 32 word) = n" if "n \<le> 1000" for n :: nat
    using that by (simp add: unat_of_nat)
  then show ?thesis
    by (simp add: limitedRetransmitTimeout_def RDP_RETRANSMIT_TIMEOUT_MAX_def
        RDP_RETRANSMIT_TIMEOUT_MIN_def RDP_RETRANSMIT_TIMEOUT_DEFAULT_def)
qed

lemma ackPacketRtt_rto:
  "nextRetransmitTimeout (ackPacketRtt s c pw)
     = limitedRetransmitTimeout (rtt (ackPacketRtt s c pw) + rttVar (ackPacketRtt s c pw) * 4)"
  by (simp add: ackPacketRtt_def Let_def)

lemmas ex_defs = ex_conn_sent_def ex_conn_def ex_slot_def ex_socket_def rdpConnCreate_def
  rbufferInit_def rbufferGet_def rbufferPut_def

text \<open>
  Claim C6. When \<open>ackPacket\<close> removes a send slot whose \<open>transmissions\<close> is 1 (the
  acknowledgement gives an RTT sample), it returns 0, the slot is gone, and the
  connection's \<open>nextRetransmitTimeout\<close> lies between 200 and 1000 ms.
\<close>

theorem ackPacket_sample_rto_range:
  assumes "rbufferGet (outbuf c) (ucast i) = Some pw" and "transmissions pw = 1"
    and "ackPacket s c i = Some (c', r)"
  shows "r = 0 \<and> rbufferGet (outbuf c') (ucast i) = None
         \<and> 200 \<le> unat (nextRetransmitTimeout c') \<and> unat (nextRetransmitTimeout c') \<le> 1000"
proof -
  let ?c1 = "c\<lparr>outbuf := rbufferPut (outbuf c) (ucast i) None\<rparr>"
  let ?c2 = "ackPacketRtt s ?c1 pw"
  have rto: "nextRetransmitTimeout ?c2 = limitedRetransmitTimeout (rtt ?c2 + rttVar ?c2 * 4)"
    by (rule ackPacketRtt_rto)
  have ob: "outbuf ?c2 = rbufferPut (outbuf c) (ucast i) None"
    by (simp add: ackPacketRtt_def Let_def)
  have c': "c' = ?c2 \<or> c' = ?c2\<lparr>flightWindow := flightWindow ?c2 - of_nat (payload pw)\<rparr>"
    and r: "r = 0"
    using assms by (auto simp: ackPacket_def Let_def split: if_splits)
  have "nextRetransmitTimeout c' = nextRetransmitTimeout ?c2" "outbuf c' = outbuf ?c2"
    using c' by auto
  then show ?thesis
    using r rto ob limitedRetransmitTimeout_range [of "rtt ?c2 + rttVar ?c2 * 4"]
    by (simp add: rbufferGet_def rbufferPut_def)
qed

text \<open>
  The slot sent at 700 ms is acknowledged at 1000 ms: the first sample gives
  \<open>rtt = 300\<close>, \<open>rttVar = 150\<close> and a timeout of 900 ms.
\<close>

theorem ackPacket_sample_rto_range_witness:
  "rbufferGet (outbuf ex_conn_sent) (ucast (100 :: 16 word)) = Some (ex_slot 100)
   \<and> transmissions (ex_slot 100) = 1
   \<and> (\<exists>c'. ackPacket ex_socket ex_conn_sent 100 = Some (c', 0)
            \<and> nextRetransmitTimeout c' = 900
            \<and> rbufferGet (outbuf c') (ucast (100 :: 16 word)) = None
            \<and> 200 \<le> unat (nextRetransmitTimeout c') \<and> unat (nextRetransmitTimeout c') \<le> 1000)"
proof -
  have h1: "rbufferGet (outbuf ex_conn_sent) (ucast (100 :: 16 word)) = Some (ex_slot 100)"
    by (simp add: ex_defs)
  have h2: "transmissions (ex_slot 100) = 1"
    by (simp add: ex_slot_def)
  obtain c' where h3: "ackPacket ex_socket ex_conn_sent 100 = Some (c', 0)"
    and rto: "nextRetransmitTimeout c' = 900"
    by (simp add: ex_defs ackPacket_def ackPacketRtt_def Let_def limitedRetransmitTimeout_def
        RDP_RETRANSMIT_TIMEOUT_MAX_def RDP_RETRANSMIT_TIMEOUT_MIN_def
        RDP_RETRANSMIT_TIMEOUT_DEFAULT_def)
  show ?thesis
    using h1 h2 h3 rto ackPacket_sample_rto_range [OF h1 h2 h3] by simp
qed

text \<open>
  The estimator arithmetic wraps at 32 bits: with \<open>rtt = 0x80000000\<close>,
  \<open>rttVar = 0x50000000\<close> and a sample of 0 ms the difference \<open>(int)rtt - (int)packetRtt\<close>
  is \<open>INT_MIN\<close>, and the timeout is clamped to 1000 ms.
\<close>

lemma ackPacketRtt_wraps:
  "rtt (ackPacketRtt ex_socket (ex_conn\<lparr>rtt := 0x80000000, rttVar := 0x50000000\<rparr>)
          ((ex_slot 100)\<lparr>sentTime := 1000\<rparr>)) = 0x70000000
   \<and> rttVar (ackPacketRtt ex_socket (ex_conn\<lparr>rtt := 0x80000000, rttVar := 0x50000000\<rparr>)
          ((ex_slot 100)\<lparr>sentTime := 1000\<rparr>)) = 0x5C000000
   \<and> nextRetransmitTimeout (ackPacketRtt ex_socket (ex_conn\<lparr>rtt := 0x80000000, rttVar := 0x50000000\<rparr>)
          ((ex_slot 100)\<lparr>sentTime := 1000\<rparr>)) = 1000"
  by (simp add: ackPacketRtt_def Let_def ex_defs limitedRetransmitTimeout_def
      RDP_RETRANSMIT_TIMEOUT_MAX_def RDP_RETRANSMIT_TIMEOUT_MIN_def
      RDP_RETRANSMIT_TIMEOUT_DEFAULT_def signed_divide_int_def)

section \<open>The check of the acknowledgement number\<close>

lemma sint16_neg_iff: "sint (w :: 16 word) < 0 \<longleftrightarrow> 32768 \<le> uint w"
proof -
  have b: "0 \<le> uint w" "uint w < 65536"
    using uint_lt2p [of w] by simp_all
  have s: "sint w = (uint w + 32768) mod 65536 - 32768"
    by (simp add: sint_uint signed_take_bit_eq_take_bit_shift take_bit_eq_mod)
  show ?thesis
  proof (cases "uint w < 32768")
    case True
    then have "(uint w + 32768) mod 65536 = uint w + 32768"
      using b by (intro mod_pos_pos_trivial) simp_all
    then show ?thesis using s True b by simp
  next
    case False
    have "(uint w - 32768 + 65536) mod 65536 = (uint w - 32768) mod 65536"
      by (simp only: mod_add_self2)
    moreover have "(uint w - 32768) mod 65536 = uint w - 32768"
      using False b by (intro mod_pos_pos_trivial) simp_all
    moreover have "uint w + 32768 = uint w - 32768 + 65536"
      by simp
    ultimately have "(uint w + 32768) mod 65536 = uint w - 32768"
      by (simp only:)
    then show ?thesis using s False b by simp
  qed
qed

lemma sixteenAfter_sint: "sixteenAfter a b \<longleftrightarrow> sint (a - b) < 0"
  by (simp add: sixteenAfter_def)

lemma acknr_check_as_range:
  "(if d then A else if sixteenAfter hi x \<or> sixteenAfter x lo then A else B)
     = (if d then A else if in_range16 lo hi x then B else A)"
  by (auto simp: sixteenAfter_sint in_range16_def not_less)

lemma rdpReadPollAcknr_alt:
  "rdpReadPollAcknr c p =
     (if state c = CS_DESTROY then Inl (-1, c)
      else if in_range16 (seqnr c - 1 - queue c - 10) (seqnr c - 1) (p_acknr p) then Inr c
      else Inl (-1, c))"
proof -
  have a1: "(word_of_int (uint (seqnr c) - 1) :: 16 word) = seqnr c - 1"
    by simp
  have a2: "(word_of_int (uint (seqnr c) - 1 - uint (queue c)
               - int RDP_ACK_NR_RECV_BEHIND_ALLOWED) :: 16 word) = seqnr c - 1 - queue c - 10"
    by (simp add: RDP_ACK_NR_RECV_BEHIND_ALLOWED_def)
  show ?thesis
    unfolding rdpReadPollAcknr_def Let_def a1 a2 by (rule acknr_check_as_range)
qed

lemma mod_65536_cases:
  fixes a b :: int
  assumes "0 \<le> a" "a < 65536" "0 \<le> b" "b < 32768"
  shows "(\<not> 32768 \<le> a \<and> \<not> 32768 \<le> (b - a) mod 65536) \<longleftrightarrow> a \<le> b"
proof (cases "a \<le> b")
  case True
  then have "(b - a) mod 65536 = b - a"
    using assms by (simp add: mod_pos_pos_trivial)
  then show ?thesis using True assms by simp
next
  case False
  have "(b - a + 65536) mod 65536 = b - a + 65536"
    using False assms by (intro mod_pos_pos_trivial) simp_all
  moreover have "(b - a) mod 65536 = (b - a + 65536) mod 65536"
    by (simp only: mod_add_self2)
  ultimately have "(b - a) mod 65536 = b - a + 65536"
    by (simp only:)
  then show ?thesis using False assms by arith
qed

lemma in_range16_cyclic:
  fixes lo x w :: "16 word"
  assumes "uint w < 32768"
  shows "in_range16 lo (lo + w) x \<longleftrightarrow> uint (x - lo) \<le> uint w"
proof -
  have eq: "lo + w - x = w - (x - lo)" by simp
  have b: "0 \<le> uint (x - lo)" "uint (x - lo) < 65536" "0 \<le> uint w"
    using uint_lt2p [of "x - lo"] by simp_all
  have sub: "uint (w - (x - lo)) = (uint w - uint (x - lo)) mod 65536"
    by (simp add: uint_word_ariths)
  have "in_range16 lo (lo + w) x \<longleftrightarrow>
          \<not> 32768 \<le> uint (x - lo) \<and> \<not> 32768 \<le> uint (w - (x - lo))"
    unfolding in_range16_def eq by (simp only: sint16_neg_iff [symmetric] not_less)
  also have "\<dots> \<longleftrightarrow> uint (x - lo) \<le> uint w"
    unfolding sub by (rule mod_65536_cases [OF b(1) b(2) b(3) assms])
  finally show ?thesis .
qed

lemma in_range16_cyclic_nat:
  fixes lo x w :: "16 word"
  assumes "unat w < 32768"
  shows "in_range16 lo (lo + w) x \<longleftrightarrow> unat (x - lo) \<le> unat w"
proof -
  have "w < 32768" using assms by (simp add: word_less_nat_alt)
  then have "uint w < 32768" by (simp add: word_less_def)
  from in_range16_cyclic [OF this, of lo x] show ?thesis
    by (simp only: word_le_nat_alt [symmetric] word_le_def)
qed

text \<open>
  Claim C3, amended. A \<open>ST_STATE\<close>, \<open>ST_DATA\<close> or \<open>ST_FIN\<close> packet matched to a
  connection that is not in \<open>CS_DESTROY\<close> is dropped by the check of its \<open>acknr\<close>
  (\<open>rdpReadPoll\<close> returns \<open>-1\<close>, the connection unchanged) exactly when the \<open>acknr\<close> lies
  outside \<open>[seqnr - 1 - queue - 10, seqnr - 1]\<close> under signed 16-bit distance, and goes
  on exactly when it lies inside. While \<open>queue + 10 < 2^15\<close> that range is the cyclic
  interval of the \<open>queue + 11\<close> values from \<open>seqnr - 1 - queue - 10\<close> on.
\<close>

theorem rdpReadPoll_acknr_range:
  assumes "state c \<noteq> CS_DESTROY"
  shows "(rdpReadPollAcknr c p = Inl (-1, c)
           \<longleftrightarrow> \<not> in_range16 (seqnr c - 1 - queue c - 10) (seqnr c - 1) (p_acknr p))
       \<and> (rdpReadPollAcknr c p = Inr c
           \<longleftrightarrow> in_range16 (seqnr c - 1 - queue c - 10) (seqnr c - 1) (p_acknr p))
       \<and> (unat (queue c) + 10 < 2 ^ 15 \<longrightarrow>
            (in_range16 (seqnr c - 1 - queue c - 10) (seqnr c - 1) (p_acknr p)
               \<longleftrightarrow> unat (p_acknr p - (seqnr c - 1 - queue c - 10)) \<le> unat (queue c) + 10))"
proof -
  let ?lo = "seqnr c - 1 - queue c - 10"
  have hi: "?lo + (queue c + 10) = seqnr c - 1" by simp
  have cyc: "in_range16 ?lo (seqnr c - 1) (p_acknr p)
               \<longleftrightarrow> unat (p_acknr p - ?lo) \<le> unat (queue c) + 10"
    if "unat (queue c) + 10 < 2 ^ 15"
  proof -
    have u: "unat (queue c + 10) = unat (queue c) + 10"
      using that by (simp add: unat_word_ariths)
    then have "unat (queue c + 10) < 32768"
      using that by simp
    from in_range16_cyclic_nat [OF this, of ?lo "p_acknr p"] show ?thesis
      by (simp only: hi u)
  qed
  have 1: "rdpReadPollAcknr c p = Inl (-1, c) \<longleftrightarrow> \<not> in_range16 ?lo (seqnr c - 1) (p_acknr p)"
    using assms by (simp only: rdpReadPollAcknr_alt) simp
  have 2: "rdpReadPollAcknr c p = Inr c \<longleftrightarrow> in_range16 ?lo (seqnr c - 1) (p_acknr p)"
    using assms by (simp only: rdpReadPollAcknr_alt) simp
  from 1 2 cyc show ?thesis by blast
qed

theorem rdpReadPoll_acknr_range_witness:
  "state ex_conn \<noteq> CS_DESTROY
   \<and> rdpReadPollAcknr ex_conn ((pkt (ex_slot 7))\<lparr>p_acknr := 89\<rparr>) = Inr ex_conn
   \<and> in_range16 (seqnr ex_conn - 1 - queue ex_conn - 10) (seqnr ex_conn - 1) 89
   \<and> rdpReadPollAcknr ex_conn ((pkt (ex_slot 7))\<lparr>p_acknr := 88\<rparr>) = Inl (-1, ex_conn)
   \<and> \<not> in_range16 (seqnr ex_conn - 1 - queue ex_conn - 10) (seqnr ex_conn - 1) 88
   \<and> unat (queue ex_conn) + 10 < 2 ^ 15
   \<and> unat ((89 :: 16 word) - (seqnr ex_conn - 1 - queue ex_conn - 10)) \<le> unat (queue ex_conn) + 10"
proof -
  have h: "state ex_conn \<noteq> CS_DESTROY" by (simp add: ex_defs)
  have q: "unat (queue ex_conn) + 10 < 2 ^ 15" by (simp add: ex_defs)
  have r89: "in_range16 (seqnr ex_conn - 1 - queue ex_conn - 10) (seqnr ex_conn - 1) 89"
    by (simp add: ex_defs in_range16_def)
  have r88: "\<not> in_range16 (seqnr ex_conn - 1 - queue ex_conn - 10) (seqnr ex_conn - 1) 88"
    by (simp add: ex_defs in_range16_def)
  show ?thesis
    using h q r89 r88
      rdpReadPoll_acknr_range [OF h, of "(pkt (ex_slot 7))\<lparr>p_acknr := 89\<rparr>"]
      rdpReadPoll_acknr_range [OF h, of "(pkt (ex_slot 7))\<lparr>p_acknr := 88\<rparr>"]
    by simp
qed

text \<open>
  The range as the claim has it, \<open>[seqnr - queue - 10, seqnr - 1]\<close>, is one short: with
  \<open>seqnr = 100\<close> and \<open>queue = 0\<close> the \<open>acknr\<close> 89 lies outside \<open>[90, 99]\<close> and the
  packet is not dropped.
\<close>

theorem rdpReadPoll_acknr_range_counterexample:
  "\<not> (rdpReadPollAcknr ex_conn ((pkt (ex_slot 7))\<lparr>p_acknr := 89\<rparr>) = Inl (-1, ex_conn)
        \<longleftrightarrow> \<not> in_range16 (seqnr ex_conn - queue ex_conn - 10) (seqnr ex_conn - 1) 89)"
  by (simp add: ex_defs rdpReadPollAcknr_def Let_def in_range16_def sixteenAfter_def
      RDP_ACK_NR_RECV_BEHIND_ALLOWED_def)

section \<open>The states in which \<open>rdpWriteVec\<close> refuses to write\<close>

text \<open>
  Claim C5. For a connection that is not \<open>NULL\<close> and between 1 and 1024 vectors,
  \<open>rdpWriteVec\<close> returns \<open>-1\<close> with \<open>errno = EAGAIN\<close> in the states \<open>CS_SYN_SENT\<close> and
  \<open>CS_CONNECTED_FULL\<close>, and \<open>-1\<close> with \<open>errno = EINVAL\<close> in the states
  \<open>CS_UNINITIALIZED\<close>, \<open>CS_SYN_RECV\<close>, \<open>CS_FIN_SENT\<close> and \<open>CS_DESTROY\<close>, leaving socket,
  connection and vectors as they were; any other outcome needs the state
  \<open>CS_CONNECTED\<close>.
\<close>

theorem rdpWriteVec_state_errors:
  assumes "vec \<noteq> []" and "length vec \<le> RDP_MAX_VEC"
  shows "(state c = CS_SYN_SENT \<or> state c = CS_CONNECTED_FULL \<longrightarrow>
            rdpWriteVec s (Some c) (Some vec) now = Some (-1, Some EAGAIN, s, Some c, Some vec))
       \<and> (state c = CS_UNINITIALIZED \<or> state c = CS_SYN_RECV \<or> state c = CS_FIN_SENT
            \<or> state c = CS_DESTROY \<longrightarrow>
            rdpWriteVec s (Some c) (Some vec) now = Some (-1, Some EINVAL, s, Some c, Some vec))
       \<and> (rdpWriteVec s (Some c) (Some vec) now \<noteq> Some (-1, Some EAGAIN, s, Some c, Some vec)
            \<and> rdpWriteVec s (Some c) (Some vec) now \<noteq> Some (-1, Some EINVAL, s, Some c, Some vec)
            \<longrightarrow> state c = CS_CONNECTED)"
  using assms by (cases "state c") (simp_all add: rdpWriteVec_def)

theorem rdpWriteVec_state_errors_witness:
  "[[1, 2, 3]] \<noteq> ([] :: rdpVec list) \<and> length [[1, 2, 3 :: 8 word]] \<le> RDP_MAX_VEC
   \<and> state (ex_conn\<lparr>state := CS_SYN_SENT\<rparr>) = CS_SYN_SENT
   \<and> rdpWriteVec ex_socket (Some (ex_conn\<lparr>state := CS_SYN_SENT\<rparr>)) (Some [[1, 2, 3]]) 1000
       = Some (-1, Some EAGAIN, ex_socket, Some (ex_conn\<lparr>state := CS_SYN_SENT\<rparr>), Some [[1, 2, 3]])
   \<and> state (ex_conn\<lparr>state := CS_FIN_SENT\<rparr>) = CS_FIN_SENT
   \<and> rdpWriteVec ex_socket (Some (ex_conn\<lparr>state := CS_FIN_SENT\<rparr>)) (Some [[1, 2, 3]]) 1000
       = Some (-1, Some EINVAL, ex_socket, Some (ex_conn\<lparr>state := CS_FIN_SENT\<rparr>), Some [[1, 2, 3]])"
proof -
  have h1: "[[1, 2, 3]] \<noteq> ([] :: rdpVec list)" by simp
  have h2: "length [[1, 2, 3 :: 8 word]] \<le> RDP_MAX_VEC" by (simp add: RDP_MAX_VEC_def)
  show ?thesis
    using h1 h2
      rdpWriteVec_state_errors [OF h1 h2, of "ex_conn\<lparr>state := CS_SYN_SENT\<rparr>" ex_socket 1000]
      rdpWriteVec_state_errors [OF h1 h2, of "ex_conn\<lparr>state := CS_FIN_SENT\<rparr>" ex_socket 1000]
    by simp
qed

section \<open>The payload of a packet\<close>

lemma getMaxPacketPayloadSize_value: "getMaxPacketPayloadSize = 1390"
  by (simp add: getMaxPacketPayloadSize_def getUdpMtu_def UDP_IPV4_MTU_def getPacketHeaderSize_def
      ETHERNET_MTU_def IPV4_HEADER_SIZE_def UDP_HEADER_SIZE_def GRE_HEADER_SIZE_def
      PPPOE_HEADER_SIZE_def MPPE_HEADER_SIZE_def FUDGE_HEADER_SIZE_def)

section \<open>Growing a ring buffer\<close>




















section \<open>Making room in a ring buffer\<close>

text \<open>
  For an offset below \<open>2^63\<close> the doubling ends whatever the size of the ring is, so
  \<open>rbufferEnsureSize\<close> returns; the offsets the program passes are 16-bit numbers.
\<close>

lemma rbufferGrowSize_total:
  assumes "0 < sz" and "sz \<le> index" and "unat index < 2 ^ 63"
  shows "\<exists>r. rbufferGrowSize sz index = Some r"
  using assms
proof (induction "unat index - unat sz" arbitrary: sz rule: less_induct)
  case less
  have le: "unat sz \<le> unat index"
    using less.prems(2) by (simp only: word_le_nat_alt)
  have pos: "0 < unat sz"
    using less.prems(1) by (simp add: word_less_nat_alt)
  have "2 * unat sz < 2 ^ 64"
    using le less.prems(3) by simp
  then have d: "unat (sz * 2) = 2 * unat sz"
    by (simp add: unat_word_ariths)
  show ?case
  proof (cases "sz * 2 \<le> index")
    case True
    have le2: "2 * unat sz \<le> unat index"
      using True d by (simp only: word_le_nat_alt)
    have m: "unat index - unat (sz * 2) < unat index - unat sz"
      using le2 pos d by simp
    have p2: "0 < sz * 2"
      using pos d by (simp add: word_less_nat_alt)
    from less.hyps [OF m p2 True less.prems(3)] obtain r where
      "rbufferGrowSize (sz * 2) index = Some r" by blast
    then show ?thesis
      using True by (subst rbufferGrowSize.simps) (simp add: Let_def)
  next
    case False
    then show ?thesis
      by (subst rbufferGrowSize.simps) (simp add: Let_def)
  qed
qed

lemma rbufferEnsureSize_total:
  assumes "unat index < 2 ^ 63"
  shows "\<exists>ob. rbufferEnsureSize buf item index = Some ob"
proof (cases "index > mask_rb buf")
  case True
  have nz: "mask_rb buf + 1 \<noteq> 0"
  proof
    assume "mask_rb buf + 1 = 0"
    then have "mask_rb buf = - 1" by (rule max_word_wrap)
    then have "index \<le> mask_rb buf" by simp
    then show False using True by simp
  qed
  then have pos: "0 < mask_rb buf + 1"
    by (simp only: word_gt_0) 
  have le: "mask_rb buf + 1 \<le> index"
    using True by (rule inc_le)
  from rbufferGrowSize_total [OF pos le assms] obtain r where
    "rbufferGrowSize (mask_rb buf + 1) index = Some r" by blast
  then show ?thesis
    using True by (simp add: rbufferEnsureSize_def rbufferGrow_def)
next
  case False
  then show ?thesis by (simp add: rbufferEnsureSize_def)
qed

lemma unat_ucast_16_64: "unat (ucast (q :: 16 word) :: 64 word) = unat q"
proof -
  have "unat q < 2 ^ 16"
    using unsigned_less [of q] by simp
  then show ?thesis by (simp add: unsigned_ucast_eq take_bit_nat_eq_self)
qed

section \<open>The identifiers of an outgoing connection\<close>

lemma rdpConnInitSeed_Some:
  "\<exists>r\<in>set rands. findRdpConnInRdpSocket s a (of_nat (r AND 0xffff)) = None
   \<Longrightarrow> \<exists>sd rest. rdpConnInitSeed s a rands = Some (sd, rest)"
proof (induction rands)
  case Nil
  then show ?case by simp
next
  case (Cons r rs)
  show ?case
  proof (cases "findRdpConnInRdpSocket s a (of_nat (r AND 0xffff)) = None")
    case True
    then show ?thesis by (simp add: Let_def del: not_None_eq)
  next
    case False
    then have "\<exists>r\<in>set rs. findRdpConnInRdpSocket s a (of_nat (r AND 0xffff)) = None"
      using Cons.prems by auto
    from Cons.IH [OF this] show ?thesis
      using False by (simp add: Let_def del: not_None_eq)
  qed
qed

lemma rdpConnInitSeed_props:
  "rdpConnInitSeed s a rands = Some (sd, rest)
   \<Longrightarrow> (\<exists>r\<in>set rands. sd = of_nat (r AND 0xffff)) \<and> findRdpConnInRdpSocket s a sd = None"
proof (induction rands)
  case Nil
  then show ?case by simp
next
  case (Cons r rs)
  show ?case
  proof (cases "findRdpConnInRdpSocket s a (of_nat (r AND 0xffff)) = None")
    case True
    then have "sd = of_nat (r AND 0xffff)"
      using Cons.prems by (simp add: Let_def del: not_None_eq)
    then show ?thesis using True by simp
  next
    case False
    then have "rdpConnInitSeed s a rs = Some (sd, rest)"
      using Cons.prems by (simp add: Let_def del: not_None_eq)
    from Cons.IH [OF this] show ?thesis by auto
  qed
qed

lemma findRdpConnInRdpSocket_mstime:
  "findRdpConnInRdpSocket (s\<lparr>mstime := now\<rparr>) a sd = findRdpConnInRdpSocket s a sd"
  by (simp add: findRdpConnInRdpSocket_def)

lemma rdpConnInitSeed_mstime:
  "rdpConnInitSeed (s\<lparr>mstime := now\<rparr>) a rands = rdpConnInitSeed s a rands"
  by (induction rands) (simp_all add: findRdpConnInRdpSocket_mstime Let_def del: not_None_eq)

text \<open>
  Claim C2, amended. \<open>rdpConnect\<close> on a connection in \<open>CS_UNINITIALIZED\<close>, with a
  draw of \<open>rand()\<close> that collides with no registered connection, returns 0; the seed
  is the low 16 bits of one of the draws and collides with nothing; the connection has
  \<open>recvId = idSeed\<close> and \<open>sendId = idSeed + 1\<close>; it is registered under \<open>recvId\<close>; and
  exactly one packet is sent, a \<open>ST_SYN\<close> of version 1 whose \<open>connId\<close> is \<open>recvId\<close>.
\<close>

theorem rdpConnect_ids:
  assumes "state c = CS_UNINITIALIZED"
    and "\<exists>r\<in>set rands. findRdpConnInRdpSocket s a (of_nat (r AND 0xffff)) = None"
  shows "\<exists>s' c' dg. rdpConnect s (Some c) a now rands = Some (0, s', Some c')
           \<and> (\<exists>r\<in>set rands. idSeed c' = of_nat (r AND 0xffff))
           \<and> findRdpConnInRdpSocket s a (idSeed c') = None
           \<and> recvId c' = idSeed c' \<and> sendId c' = idSeed c' + 1
           \<and> state c' = CS_SYN_SENT
           \<and> conns s' = (a, recvId c') # conns s
           \<and> wire s' = wire s @ [dg]
           \<and> packetGetType (dg_hdr dg) = ST_SYN \<and> packetGetVersion (dg_hdr dg) = 1
           \<and> p_connId (dg_hdr dg) = recvId c' \<and> p_seqnr (dg_hdr dg) = seqnr c
           \<and> seqnr c' = seqnr c + 1 \<and> queue c' = queue c + 1"
proof -
  from rdpConnInitSeed_Some [OF assms(2)] obtain sd rest where
    seed: "rdpConnInitSeed s a rands = Some (sd, rest)" by blast
  note props = rdpConnInitSeed_props [OF seed]
  have "unat (queue c) < 2 ^ 16"
    using unsigned_less [of "queue c"] by simp
  then have "unat (ucast (queue c) :: 64 word) < 2 ^ 63"
    by (simp only: unat_ucast_16_64) simp
  from rbufferEnsureSize_total [OF this, of "outbuf c" "ucast (seqnr c)"] obtain ob where
    ens: "rbufferEnsureSize (outbuf c) (ucast (seqnr c)) (ucast (queue c)) = Some ob"
    by blast
  have seed': "rdpConnInitSeed (s\<lparr>mstime := now\<rparr>) a rands = Some (sd, rest)"
    using seed by (simp only: rdpConnInitSeed_mstime)
  show ?thesis
    using assms(1) props
    by (simp add: rdpConnect_def rdpConnInit_def seed' ens sendPacketWrap_def sendData_def
        sendToAddr_def rbufferGet_def rbufferPut_def Let_def packetSetType_def
        packetSetVersion_def packetGetType_def packetGetVersion_def ST_SYN_def)
qed


lemmas connect_defs = rdpConnect_def rdpConnInit_def sendPacketWrap_def sendData_def
  sendToAddr_def rbufferEnsureSize_def rbufferGet_def rbufferPut_def rbufferInit_def
  rdpConnCreate_def findRdpConnInRdpSocket_def packetSetType_def packetSetVersion_def
  packetGetType_def packetGetVersion_def ST_SYN_def connectedConn_def connectedWire_def
  ex_socket_def ex_addr_def Let_def

theorem rdpConnect_ids_witness:
  "state (rdpConnCreate 100) = CS_UNINITIALIZED
   \<and> findRdpConnInRdpSocket ex_socket ex_addr (of_nat (5 AND 0xffff)) = None
   \<and> map_option idSeed
         (connectedConn (rdpConnect ex_socket (Some (rdpConnCreate 100)) ex_addr 2000 [5])) = Some 5
   \<and> map_option recvId
         (connectedConn (rdpConnect ex_socket (Some (rdpConnCreate 100)) ex_addr 2000 [5])) = Some 5
   \<and> map_option sendId
         (connectedConn (rdpConnect ex_socket (Some (rdpConnCreate 100)) ex_addr 2000 [5])) = Some 6
   \<and> map (\<lambda>dg. p_connId (dg_hdr dg))
         (connectedWire (rdpConnect ex_socket (Some (rdpConnCreate 100)) ex_addr 2000 [5])) = [5]"
proof -
  have h1: "state (rdpConnCreate 100) = CS_UNINITIALIZED"
    by (simp add: rdpConnCreate_def)
  have h2': "findRdpConnInRdpSocket ex_socket ex_addr (of_nat (5 AND 0xffff)) = None"
    by (simp add: findRdpConnInRdpSocket_def ex_socket_def)
  then have h2: "\<exists>r\<in>set [5]. findRdpConnInRdpSocket ex_socket ex_addr (of_nat (r AND 0xffff)) = None"
    by simp
  from rdpConnect_ids [OF h1 h2, of 2000] obtain s' c' dg where
    r: "rdpConnect ex_socket (Some (rdpConnCreate 100)) ex_addr 2000 [5] = Some (0, s', Some c')"
    and sd: "\<exists>r\<in>set [5]. idSeed c' = of_nat (r AND 0xffff)"
    and ids: "recvId c' = idSeed c'" "sendId c' = idSeed c' + 1"
    and w: "wire s' = wire ex_socket @ [dg]" "p_connId (dg_hdr dg) = recvId c'"
    by blast
  have "idSeed c' = 5" using sd by simp
  then show ?thesis
    using h1 h2' r ids w by (simp add: connectedConn_def connectedWire_def ex_socket_def)
qed

text \<open>
  The claim has the two identifiers the other way round (\<open>recvId = idSeed + 1\<close>,
  \<open>sendId = idSeed\<close>). With the draw 5 the seed is 5, \<open>recvId\<close> is not 6 and \<open>sendId\<close>
  is not 5.
\<close>

theorem rdpConnect_ids_counterexample:
  "map_option idSeed
     (connectedConn (rdpConnect ex_socket (Some (rdpConnCreate 100)) ex_addr 2000 [5])) = Some 5
   \<and> map_option recvId
       (connectedConn (rdpConnect ex_socket (Some (rdpConnCreate 100)) ex_addr 2000 [5])) \<noteq> Some (5 + 1)
   \<and> map_option sendId
       (connectedConn (rdpConnect ex_socket (Some (rdpConnCreate 100)) ex_addr 2000 [5])) \<noteq> Some 5"
  by (simp add: connect_defs)

section \<open>The keep-alive of the periodic check\<close>

lemma sendPacketWrap_state:
  "sendPacketWrap s c i = Some (s', c') \<Longrightarrow> state c' = state c"
  by (auto simp: sendPacketWrap_def sendData_def Let_def split: option.splits if_splits)

lemma rdpConnFlushPacketsLoop_state:
  "rdpConnFlushPacketsLoop s c i = Some (s', c', r) \<Longrightarrow> state c' = state c"
proof (induction s c i rule: rdpConnFlushPacketsLoop.induct)
  case (1 s c i)
  show ?case
    using "1.prems" "1.IH" sendPacketWrap_state
    by (subst (asm) rdpConnFlushPacketsLoop.simps)
       (auto split: if_splits option.splits)
qed

lemma rdpConnCheckMark_state:
  "rdpConnCheckMark s c i = Some c' \<Longrightarrow> state c' = state c"
proof (induction s c i rule: rdpConnCheckMark.induct)
  case (1 s c i)
  show ?case
    using "1.prems" "1.IH"
    by (subst (asm) rdpConnCheckMark.simps)
       (auto split: if_splits option.splits)
qed

lemma resizeWindow_state: "resizeWindow c = Some (c', r) \<Longrightarrow> state c' = state c"
  by (auto simp: resizeWindow_def split: option.splits if_splits)

lemma updateRetransmitTimeout_state:
  "updateRetransmitTimeout s c = Some (c', r) \<Longrightarrow> state c' = state c"
  by (auto simp: updateRetransmitTimeout_def Let_def split: option.splits if_splits)

lemma rdpConnCheckTimeout_connected:
  assumes "state c = CS_CONNECTED \<or> state c = CS_CONNECTED_FULL"
    and "rdpConnCheckTimeout s c = Some (s1, c1, ret)"
  shows "state c1 = state c \<and> \<not> ret"
  using assms
  by (auto simp: rdpConnCheckTimeout_def rdpConnFlushPackets_def
      split: if_splits option.splits prod.splits
      dest!: rdpConnFlushPacketsLoop_state rdpConnCheckMark_state resizeWindow_state
             updateRetransmitTimeout_state)


lemma st_state_lt16: "ST_STATE < 16"
  by (simp add: ST_STATE_def)

lemma sendAckEmit_result:
  "\<exists>dg. sendAckEmit s c p ext
           = (s\<lparr>wire := wire s @ [dg]\<rparr>, c\<lparr>lastSentPacket := mstime s, needSendAck := False\<rparr>)
        \<and> dg_addr dg = addr c \<and> dg_body dg = ext
        \<and> packetGetType (dg_hdr dg) = ST_STATE \<and> packetGetVersion (dg_hdr dg) = 1
        \<and> reserve (dg_hdr dg) = reserve p
        \<and> p_connId (dg_hdr dg) = sendId c \<and> p_acknr (dg_hdr dg) = acknr c
        \<and> p_seqnr (dg_hdr dg) = seqnr c \<and> p_window (dg_hdr dg) = recvWindowSelf c"
proof -
  let ?p1 = "packetSetType (packetSetVersion p 1) ST_STATE"
  have t: "drop_bit 4 (versionAndType ?p1) = ST_STATE"
    by (simp only: versionAndType_packetSetType nibble_set_high_get_high [OF st_state_lt16])
  have "versionAndType ?p1 AND 0x0f = versionAndType (packetSetVersion p 1) AND 0x0f"
    by (simp only: versionAndType_packetSetType nibble_set_high_get_low)
  also have "\<dots> = 1 AND 0x0f"
    by (simp only: versionAndType_packetSetVersion nibble_set_low_get_low)
  finally have v: "versionAndType ?p1 AND 0x0f = 1" by simp
  have r: "reserve ?p1 = reserve p"
    by (simp add: packetSetType_def packetSetVersion_def)
  let ?dg = "\<lparr>dg_addr = addr c,
              dg_hdr = ?p1\<lparr>p_connId := sendId c, p_acknr := acknr c, p_seqnr := seqnr c,
                           p_window := recvWindowSelf c\<rparr>,
              dg_body = ext\<rparr>"
  have "sendAckEmit s c p ext
          = (s\<lparr>wire := wire s @ [?dg]\<rparr>, c\<lparr>lastSentPacket := mstime s, needSendAck := False\<rparr>)"
    by (simp add: sendAckEmit_def sendData_def sendToAddr_def Let_def)
  moreover have "packetGetType (dg_hdr ?dg) = ST_STATE"
    using t by (simp add: packetGetType_def)
  moreover have "packetGetVersion (dg_hdr ?dg) = 1"
    using v by (simp add: packetGetVersion_def)
  moreover have "reserve (dg_hdr ?dg) = reserve p"
    using r by simp
  ultimately show ?thesis
    by (intro exI [of _ ?dg]) simp
qed

lemma sendAck_result:
  assumes "outOfOrderCnt c = 0 \<or> state c = CS_SYN_RECV \<or> receivedFinCompleted c
           \<or> rbufferGet (inbuf c) (word_of_int (uint (acknr c) + 1)) = None"
  shows "\<exists>dg. sendAck s c
           = Some (s\<lparr>wire := wire s @ [dg]\<rparr>, c\<lparr>lastSentPacket := mstime s, needSendAck := False\<rparr>)
        \<and> dg_addr dg = addr c
        \<and> packetGetType (dg_hdr dg) = ST_STATE \<and> packetGetVersion (dg_hdr dg) = 1
        \<and> p_connId (dg_hdr dg) = sendId c \<and> p_acknr (dg_hdr dg) = acknr c
        \<and> p_seqnr (dg_hdr dg) = seqnr c \<and> p_window (dg_hdr dg) = recvWindowSelf c"
proof -
  have "\<exists>p ext. sendAck s c = Some (sendAckEmit s c p ext)"
  proof (cases "outOfOrderCnt c \<noteq> 0 \<and> state c \<noteq> CS_SYN_RECV \<and> \<not> receivedFinCompleted c")
    case True
    then have "rbufferGet (inbuf c) (word_of_int (uint (acknr c) + 1)) = None"
      using assms by auto
    then show ?thesis
      using True by (simp add: sendAck_def Let_def del: not_None_eq) blast
  next
    case False
    then show ?thesis
      by (simp add: sendAck_def Let_def del: not_None_eq) blast
  qed
  then obtain p ext where "sendAck s c = Some (sendAckEmit s c p ext)"
    by blast
  then show ?thesis
    using sendAckEmit_result [of s c p ext] by auto
qed

lemma rdpConnKeepAlive_result:
  assumes "outOfOrderCnt c = 0 \<or> state c = CS_SYN_RECV \<or> receivedFinCompleted c
           \<or> rbufferGet (inbuf c) (word_of_int (uint (acknr c - 1) + 1)) = None"
  shows "\<exists>dg. rdpConnKeepAlive s c
           = Some (s\<lparr>wire := wire s @ [dg]\<rparr>, c\<lparr>lastSentPacket := mstime s, needSendAck := False\<rparr>)
        \<and> dg_addr dg = addr c
        \<and> packetGetType (dg_hdr dg) = ST_STATE \<and> packetGetVersion (dg_hdr dg) = 1
        \<and> p_connId (dg_hdr dg) = sendId c \<and> p_acknr (dg_hdr dg) = acknr c - 1
        \<and> p_seqnr (dg_hdr dg) = seqnr c \<and> p_window (dg_hdr dg) = recvWindowSelf c"
proof -
  let ?c = "c\<lparr>acknr := acknr c - 1\<rparr>"
  have pre: "outOfOrderCnt ?c = 0 \<or> state ?c = CS_SYN_RECV \<or> receivedFinCompleted ?c
             \<or> rbufferGet (inbuf ?c) (word_of_int (uint (acknr ?c) + 1)) = None"
    using assms by simp
  from sendAck_result [OF pre, of s] obtain dg where
    dg: "sendAck s ?c
           = Some (s\<lparr>wire := wire s @ [dg]\<rparr>, ?c\<lparr>lastSentPacket := mstime s, needSendAck := False\<rparr>)"
      "dg_addr dg = addr ?c" "packetGetType (dg_hdr dg) = ST_STATE"
      "packetGetVersion (dg_hdr dg) = 1" "p_connId (dg_hdr dg) = sendId ?c"
      "p_acknr (dg_hdr dg) = acknr ?c" "p_seqnr (dg_hdr dg) = seqnr ?c"
      "p_window (dg_hdr dg) = recvWindowSelf ?c"
    by blast
  have "rdpConnKeepAlive s c
          = Some (s\<lparr>wire := wire s @ [dg]\<rparr>, c\<lparr>lastSentPacket := mstime s, needSendAck := False\<rparr>)"
    by (simp add: rdpConnKeepAlive_def dg(1))
  then show ?thesis using dg(2-) by auto
qed

text \<open>
  Claim C8 (as amended).  \<^verbatim>\<open>rdpConnCheck\<close> first runs the retransmission part
  (\<^verbatim>\<open>rdpConnCheckTimeout\<close> here, lines 1836-1875), which leaves the socket and the
  connection untouched when the retransmission deadline has not been reached and sets
  \<^verbatim>\<open>lastSentPacket\<close> to the tick time whenever it sends a packet.  For a connection in
  state CONNECTED or CONNECTED_FULL whose last sent-packet time is at least 29000 ms in
  the past when the keep-alive test is reached after that part, the check sends exactly
  one more datagram: a STATE packet of version 1 to the peer, whose \<^verbatim>\<open>ack_nr\<close> field is
  the connection's \<^verbatim>\<open>acknr\<close> minus 1, and the connection afterwards differs only in
  \<^verbatim>\<open>lastSentPacket\<close> and \<^verbatim>\<open>needSendAck\<close>, so that the stored \<^verbatim>\<open>acknr\<close> is unchanged.  The
  second and the last premise are the assertions of the source on that path.
\<close>

theorem rdpConnCheck_keepalive:
  assumes "state c = CS_CONNECTED \<or> state c = CS_CONNECTED_FULL"
    and "queue c = 0
         \<or> rbufferGet (outbuf c) (word_of_int (uint (seqnr c) - uint (queue c))) \<noteq> None"
    and "rdpConnCheckTimeout s c = Some (s1, c1, ret)"
    and "mstime s1 \<ge> lastSentPacket c1 + of_nat RDP_KEEPALIVE_INTERVAL"
    and "outOfOrderCnt c1 = 0 \<or> receivedFinCompleted c1
         \<or> rbufferGet (inbuf c1) (word_of_int (uint (acknr c1 - 1) + 1)) = None"
  shows "\<exists>dg s2. rdpConnCheck tmin tmax s c
              = Some (s2, c1\<lparr>lastSentPacket := mstime s1, needSendAck := False\<rparr>)
           \<and> wire s2 = wire s1 @ [dg]
           \<and> dg_addr dg = addr c1
           \<and> packetGetType (dg_hdr dg) = ST_STATE \<and> packetGetVersion (dg_hdr dg) = 1
           \<and> p_connId (dg_hdr dg) = sendId c1 \<and> p_acknr (dg_hdr dg) = acknr c1 - 1
           \<and> p_seqnr (dg_hdr dg) = seqnr c1 \<and> p_window (dg_hdr dg) = recvWindowSelf c1
           \<and> (mstime s < retransmitTicker c \<longrightarrow> s1 = s \<and> c1 = c)"
proof -
  from rdpConnCheckTimeout_connected [OF assms(1,3)] have
    st1: "state c1 = state c" and ret: "\<not> ret" by simp_all
  have pre: "outOfOrderCnt c1 = 0 \<or> state c1 = CS_SYN_RECV \<or> receivedFinCompleted c1
             \<or> rbufferGet (inbuf c1) (word_of_int (uint (acknr c1 - 1) + 1)) = None"
    using assms(5) by auto
  from rdpConnKeepAlive_result [OF pre, of s1] obtain dg where
    ka: "rdpConnKeepAlive s1 c1
           = Some (s1\<lparr>wire := wire s1 @ [dg]\<rparr>, c1\<lparr>lastSentPacket := mstime s1, needSendAck := False\<rparr>)"
    and dg: "dg_addr dg = addr c1" "packetGetType (dg_hdr dg) = ST_STATE"
      "packetGetVersion (dg_hdr dg) = 1" "p_connId (dg_hdr dg) = sendId c1"
      "p_acknr (dg_hdr dg) = acknr c1 - 1" "p_seqnr (dg_hdr dg) = seqnr c1"
      "p_window (dg_hdr dg) = recvWindowSelf c1"
    by blast
  have kac: "rdpConnCheckKeepAlive s1 c1
               = Some (s1\<lparr>wire := wire s1 @ [dg]\<rparr>,
                       c1\<lparr>lastSentPacket := mstime s1, needSendAck := False\<rparr>)"
    using assms(1,4) st1 ka by (simp add: rdpConnCheckKeepAlive_def)
  have nodue: "s1 = s \<and> c1 = c" if "mstime s < retransmitTicker c"
    using that assms(3) by (simp add: rdpConnCheckTimeout_def not_le [symmetric])
  have "\<exists>s2. rdpConnCheck tmin tmax s c
              = Some (s2, c1\<lparr>lastSentPacket := mstime s1, needSendAck := False\<rparr>)
           \<and> wire s2 = wire s1 @ [dg]"
    using assms(1,2,3) ret kac by (auto simp: rdpConnCheck_def)
  then show ?thesis using dg nodue by blast
qed

text \<open>
  An idle connection with \<^verbatim>\<open>acknr = 7\<close>, checked at time 30000 with its retransmission
  deadline at 40000: one STATE packet with \<^verbatim>\<open>ack_nr = 6\<close> is sent.
\<close>

theorem rdpConnCheck_keepalive_witness:
  "(state ex_idle_conn = CS_CONNECTED \<or> state ex_idle_conn = CS_CONNECTED_FULL)
   \<and> queue ex_idle_conn = 0
   \<and> rdpConnCheckTimeout ex_idle_socket ex_idle_conn = Some (ex_idle_socket, ex_idle_conn, False)
   \<and> mstime ex_idle_socket \<ge> lastSentPacket ex_idle_conn + of_nat RDP_KEEPALIVE_INTERVAL
   \<and> outOfOrderCnt ex_idle_conn = 0
   \<and> mstime ex_idle_socket < retransmitTicker ex_idle_conn
   \<and> (\<exists>dg s2. rdpConnCheck 10 1000 ex_idle_socket ex_idle_conn
                  = Some (s2, ex_idle_conn\<lparr>lastSentPacket := 30000, needSendAck := False\<rparr>)
          \<and> wire s2 = [dg]
          \<and> packetGetType (dg_hdr dg) = ST_STATE \<and> p_acknr (dg_hdr dg) = 6)"
proof -
  have h1: "state ex_idle_conn = CS_CONNECTED \<or> state ex_idle_conn = CS_CONNECTED_FULL"
    by (simp add: ex_idle_conn_def ex_defs)
  have q: "queue ex_idle_conn = 0"
    by (simp add: ex_idle_conn_def ex_defs)
  then have h2: "queue ex_idle_conn = 0
       \<or> rbufferGet (outbuf ex_idle_conn)
            (word_of_int (uint (seqnr ex_idle_conn) - uint (queue ex_idle_conn))) \<noteq> None"
    by (rule disjI1)
  have h3: "rdpConnCheckTimeout ex_idle_socket ex_idle_conn
              = Some (ex_idle_socket, ex_idle_conn, False)"
    by (simp add: rdpConnCheckTimeout_def ex_idle_conn_def ex_idle_socket_def ex_defs)
  have h4: "mstime ex_idle_socket \<ge> lastSentPacket ex_idle_conn + of_nat RDP_KEEPALIVE_INTERVAL"
    by (simp add: ex_idle_conn_def ex_idle_socket_def ex_defs RDP_KEEPALIVE_INTERVAL_def)
  have o: "outOfOrderCnt ex_idle_conn = 0"
    by (simp add: ex_idle_conn_def ex_defs)
  then have h5: "outOfOrderCnt ex_idle_conn = 0 \<or> receivedFinCompleted ex_idle_conn
       \<or> rbufferGet (inbuf ex_idle_conn) (word_of_int (uint (acknr ex_idle_conn - 1) + 1)) = None"
    by (rule disjI1)
  have nd: "mstime ex_idle_socket < retransmitTicker ex_idle_conn"
    by (simp add: ex_idle_conn_def ex_idle_socket_def ex_defs)
  have v: "mstime ex_idle_socket = 30000" "wire ex_idle_socket = []" "acknr ex_idle_conn - 1 = 6"
    by (simp_all add: ex_idle_conn_def ex_idle_socket_def ex_defs)
  show ?thesis
    using h1 q h3 h4 o nd rdpConnCheck_keepalive [OF h1 h2 h3 h4 h5, of 10 1000]
    by (auto simp: v)
qed

text \<open>
  The condition cannot be read at the entry of the check: a connected connection that
  sent its last packet 29300 ms ago, with one unacknowledged packet whose retransmission
  is due, retransmits that DATA packet, which resets \<^verbatim>\<open>lastSentPacket\<close>, and sends no
  STATE packet.
\<close>

theorem rdpConnCheck_keepalive_counterexample:
  "state ex_late_conn = CS_CONNECTED
   \<and> mstime ex_idle_socket \<ge> lastSentPacket ex_late_conn + of_nat RDP_KEEPALIVE_INTERVAL
   \<and> wireTypes (checkedWire (rdpConnCheck 10 1000 ex_idle_socket ex_late_conn)) = [ST_DATA]
   \<and> ST_DATA \<noteq> ST_STATE"
  by (simp add: ex_late_conn_def ex_idle_socket_def ex_defs RDP_KEEPALIVE_INTERVAL_def
      rdpConnCheck_def rdpConnCheckTimeout_def rdpConnCheckMark.simps resizeWindow_def
      rdpConnFlushPackets_def rdpConnFlushPacketsLoop.simps rdpConnFlightWindowFull_def
      sendPacketWrap_def sendData_def sendToAddr_def updateRetransmitTimeout_def
      rdpConnCheckKeepAlive_def checkedWire_def wireTypes_def packetGetType_def
      limitedWindow_def limitedRetransmitTimeout_def getMaxPacketPayloadSize_value
      RDP_WINDOW_SIZE_MAX_def RDP_WINDOW_SIZE_DEFAULT_def RDP_BUFFER_SIZE_MAX_def
      RDP_RETRANSMIT_TIMEOUT_DEFAULT_def RDP_WAIT_FIN_SENT_def RDP_WAIT_SYN_RECV_def
      ST_DATA_def ST_STATE_def Let_def)

section \<open>A write of length zero\<close>











section \<open>The segmentation of a write\<close>



















section \<open>Selective acknowledgement\<close>





















end
